theory Spec2Isabelle
  imports Main "HOL-Library.AList"
begin

section \<open>JavaScript values\<close>

text \<open>
  The values the script handles: what \<^verbatim>\<open>JSON.parse\<close> returns (null, booleans, numbers,
  strings, arrays, objects), the value \<^verbatim>\<open>undefined\<close> that reading a missing property
  gives, and the arrays the script builds itself. The type of numbers is a parameter
  \<open>'n\<close>: numbers are IEEE doubles, and the script only creates them from array indices,
  prints them and tests them for truthiness.
\<close>

datatype 'n jsval =
    JUndefined
  | JNull
  | JBool bool
  | JNum 'n
  | JStr string
  | JArr "'n jsval list"
  | JObj "(string \<times> 'n jsval) list"

text \<open>
  The built-in operations on numbers that the script reaches: the number of an index
  (\<^verbatim>\<open>i + 1\<close>), \<^verbatim>\<open>ToString\<close> of a number, \<^verbatim>\<open>Number.prototype.toFixed\<close>, and
  \<^verbatim>\<open>ToBoolean\<close> of a number (false for zero and NaN).
\<close>

record 'n platform =
  num_of_nat :: "nat \<Rightarrow> 'n"
  num_to_string :: "'n \<Rightarrow> string"
  num_to_fixed :: "nat \<Rightarrow> 'n \<Rightarrow> string"
  num_truthy :: "'n \<Rightarrow> bool"

datatype js_error = TypeError

text \<open>Sequencing: an exception of the first step skips the steps after it.\<close>

fun and_then :: "'x + 'a \<Rightarrow> ('a \<Rightarrow> 'x + 'b) \<Rightarrow> 'x + 'b" where
  "and_then (Inl err) next_step = Inl err"
| "and_then (Inr v) next_step = next_step v"

text \<open>
  \<^verbatim>\<open>ToString\<close>, as a template literal applies it. An array prints its elements joined
  by commas, from left to right, with \<^verbatim>\<open>null\<close> and \<^verbatim>\<open>undefined\<close> elements printed as
  nothing. A parsed object has the prototype of plain objects: it prints as
  \<^verbatim>\<open>[object Object]\<close> through the inherited \<^verbatim>\<open>toString\<close>, unless it has a key
  \<^verbatim>\<open>toString\<close> of its own. That key holds a parsed value, never a function, so it
  hides the inherited method, \<^verbatim>\<open>valueOf\<close> yields no primitive either, and the
  conversion raises a TypeError.
\<close>

fun to_string :: "'n platform \<Rightarrow> 'n jsval \<Rightarrow> js_error + string"
  and join_comma :: "'n platform \<Rightarrow> 'n jsval list \<Rightarrow> js_error + string" where
  "to_string P JUndefined = Inr ''undefined''"
| "to_string P JNull = Inr ''null''"
| "to_string P (JBool b) = Inr (if b then ''true'' else ''false'')"
| "to_string P (JNum x) = Inr (num_to_string P x)"
| "to_string P (JStr s) = Inr s"
| "to_string P (JArr xs) = join_comma P xs"
| "to_string P (JObj kvs) =
     (if map_of kvs ''toString'' = None then Inr ''[object Object]'' else Inl TypeError)"
| "join_comma P [] = Inr []"
| "join_comma P (x # xs) =
     and_then (case x of JUndefined \<Rightarrow> Inr [] | JNull \<Rightarrow> Inr [] | _ \<Rightarrow> to_string P x) (\<lambda>first.
       if xs = [] then Inr first
       else and_then (join_comma P xs) (\<lambda>others. Inr (first @ '','' @ others)))"

text \<open>\<^verbatim>\<open>ToBoolean\<close>: what \<^verbatim>\<open>||\<close> and \<^verbatim>\<open>&&\<close> test.\<close>

fun truthy :: "'n platform \<Rightarrow> 'n jsval \<Rightarrow> bool" where
  "truthy P JUndefined = False"
| "truthy P JNull = False"
| "truthy P (JBool b) = b"
| "truthy P (JNum x) = num_truthy P x"
| "truthy P (JStr s) = (s \<noteq> [])"
| "truthy P (JArr xs) = True"
| "truthy P (JObj kvs) = True"

section \<open>The DOM\<close>

text \<open>
  A node is a text node or an element with its tag, its \<^verbatim>\<open>id\<close> attribute (if any), the
  properties set on its \<^verbatim>\<open>style\<close>, and its children in order. Object identity is not
  part of a node: two elements built alike are equal.
\<close>

datatype node =
    Text string
  | Element string "string option" "(string \<times> string) list" "node list"

definition createElement :: "string \<Rightarrow> node" where
  "createElement t = Element t None [] []"

text \<open>
  The operations below are only ever applied to elements (results of
  \<^verbatim>\<open>createElement\<close> and \<^verbatim>\<open>getElementById\<close>); on a text node they leave it as it is.
\<close>

fun set_style :: "string \<Rightarrow> string \<Rightarrow> node \<Rightarrow> node" where
  "set_style k v (Element t a s c) = Element t a (AList.update k v s) c"
| "set_style k v (Text x) = Text x"

fun appendChild :: "node \<Rightarrow> node \<Rightarrow> node" where
  "appendChild (Element t a s c) n = Element t a s (c @ [n])"
| "appendChild (Text x) n = Text x"

text \<open>
  Assigning to \<^verbatim>\<open>textContent\<close>: the attribute is a nullable string, so \<^verbatim>\<open>null\<close> and
  \<^verbatim>\<open>undefined\<close> become the empty string and every other value goes through
  \<^verbatim>\<open>ToString\<close>, which can raise; then the children are replaced by one text node, or
  by nothing when the string is empty.
\<close>

fun dom_string :: "'n platform \<Rightarrow> 'n jsval \<Rightarrow> js_error + string" where
  "dom_string P JUndefined = Inr []"
| "dom_string P JNull = Inr []"
| "dom_string P v = to_string P v"

fun replace_text :: "string \<Rightarrow> node \<Rightarrow> node" where
  "replace_text str (Element t a s c) = Element t a s (if str = [] then [] else [Text str])"
| "replace_text str (Text x) = Text x"

definition set_textContent :: "'n platform \<Rightarrow> 'n jsval \<Rightarrow> node \<Rightarrow> js_error + node" where
  "set_textContent P v el = and_then (dom_string P v) (\<lambda>str. Inr (replace_text str el))"

text \<open>Reading \<^verbatim>\<open>textContent\<close>: the text of all descendants, in tree order.\<close>

fun textContent :: "node \<Rightarrow> string"
  and textContents :: "node list \<Rightarrow> string" where
  "textContent (Text x) = x"
| "textContent (Element t a s c) = textContents c"
| "textContents [] = []"
| "textContents (n # ns) = textContent n @ textContents ns"

fun childNodes :: "node \<Rightarrow> node list" where
  "childNodes (Element t a s c) = c"
| "childNodes (Text x) = []"

section \<open>makeTable\<close>

text \<open>The \<^verbatim>\<open>th\<close> built for one header, and the \<^verbatim>\<open>td\<close> built for one cell.\<close>

definition header_cell :: "'n platform \<Rightarrow> 'n jsval \<Rightarrow> js_error + node" where
  "header_cell P h =
     and_then (set_textContent P h (createElement ''th'')) (\<lambda>th.
       Inr (set_style ''textAlign'' ''left''
             (set_style ''padding'' ''4px 6px''
               (set_style ''borderBottom'' ''1px solid #ccc'' th))))"

definition body_cell :: "'n platform \<Rightarrow> 'n jsval \<Rightarrow> js_error + node" where
  "body_cell P cell =
     and_then (set_textContent P cell (createElement ''td'')) (\<lambda>td.
       Inr (set_style ''borderBottom'' ''1px solid #eee''
             (set_style ''padding'' ''3px 6px'' td)))"

text \<open>
  \<^verbatim>\<open>xs.forEach(f)\<close> with a callback that builds one child and appends it to \<open>parent\<close>:
  the elements are visited from index 0 upwards, and an exception of the callback ends
  the loop.
\<close>

fun append_each :: "('a \<Rightarrow> js_error + node) \<Rightarrow> 'a list \<Rightarrow> node \<Rightarrow> js_error + node" where
  "append_each build [] parent = Inr parent"
| "append_each build (x # xs) parent =
     and_then (build x) (\<lambda>child. append_each build xs (appendChild parent child))"

text \<open>
  \<^verbatim>\<open>rows.forEach\<close>: each row must itself have \<^verbatim>\<open>forEach\<close>, that is, be an array;
  anything else raises a TypeError at that row.
\<close>

fun append_rows :: "'n platform \<Rightarrow> 'n jsval list \<Rightarrow> node \<Rightarrow> js_error + node" where
  "append_rows P [] tbody = Inr tbody"
| "append_rows P (row # rest) tbody =
     (case row of
        JArr cells \<Rightarrow>
          and_then (append_each (body_cell P) cells (createElement ''tr'')) (\<lambda>tr.
            append_rows P rest (appendChild tbody tr))
      | _ \<Rightarrow> Inl TypeError)"

text \<open>
  \<^verbatim>\<open>makeTable(headers, rows)\<close>. Both arguments are used through \<^verbatim>\<open>forEach\<close> only, so a
  value that is not an array raises a TypeError.
\<close>

definition makeTable :: "'n platform \<Rightarrow> 'n jsval \<Rightarrow> 'n jsval \<Rightarrow> js_error + node" where
  "makeTable P headers rows =
     (let table = createElement ''table'';
          table = set_style ''borderCollapse'' ''collapse'' table;
          table = set_style ''marginBottom'' ''12px'' table;
          table = set_style ''fontSize'' ''0.9rem'' table;
          thead = createElement ''thead'';
          headRow = createElement ''tr''
      in case headers of
           JArr hs \<Rightarrow>
             and_then (append_each (header_cell P) hs headRow) (\<lambda>headRow.
               let thead = appendChild thead headRow;
                   table = appendChild table thead;
                   tbody = createElement ''tbody''
               in case rows of
                    JArr rs \<Rightarrow>
                      and_then (append_rows P rs tbody) (\<lambda>tbody. Inr (appendChild table tbody))
                  | _ \<Rightarrow> Inl TypeError)
         | _ \<Rightarrow> Inl TypeError)"

text \<open>
  What a test reads off a table: the cells of the header row, the rows of the body, and
  their texts.
\<close>

fun header_cells :: "node \<Rightarrow> node list" where
  "header_cells (Element t a s (Element t1 a1 s1 (headRow # _) # _)) = childNodes headRow"
| "header_cells _ = []"

fun body_rows :: "node \<Rightarrow> node list" where
  "body_rows (Element t a s [thead, tbody]) = childNodes tbody"
| "body_rows _ = []"

definition header_texts :: "node \<Rightarrow> string list" where
  "header_texts table = map textContent (header_cells table)"

definition row_texts :: "node \<Rightarrow> string list list" where
  "row_texts table = map (\<lambda>tr. map textContent (childNodes tr)) (body_rows table)"

section \<open>The objects makeTable creates\<close>

text \<open>
  Every element and every text node is an object that the platform creates, with an
  identity of its own. Here the identity is a number taken from a counter, and
  \<open>makeTable_at\<close> is \<open>makeTable\<close> with the counter passed along: the same statements in
  the same order, each creation taking the next number. \<open>forget\<close> drops the identities.
\<close>

datatype obj =
    TextObj nat string
  | ElementObj nat string "string option" "(string \<times> string) list" "obj list"

fun forget :: "obj \<Rightarrow> node" where
  "forget (TextObj i x) = Text x"
| "forget (ElementObj i t a s c) = Element t a s (map forget c)"

definition createElement_at :: "string \<Rightarrow> nat \<Rightarrow> obj \<times> nat" where
  "createElement_at t n = (ElementObj n t None [] [], Suc n)"

fun set_style_at :: "string \<Rightarrow> string \<Rightarrow> obj \<Rightarrow> obj" where
  "set_style_at k v (ElementObj i t a s c) = ElementObj i t a (AList.update k v s) c"
| "set_style_at k v (TextObj i x) = TextObj i x"

fun appendChild_at :: "obj \<Rightarrow> obj \<Rightarrow> obj" where
  "appendChild_at (ElementObj i t a s c) n = ElementObj i t a s (c @ [n])"
| "appendChild_at (TextObj i x) n = TextObj i x"

fun replace_text_at :: "string \<Rightarrow> obj \<Rightarrow> nat \<Rightarrow> obj \<times> nat" where
  "replace_text_at str (ElementObj i t a s c) n =
     (if str = [] then (ElementObj i t a s [], n) else (ElementObj i t a s [TextObj n str], Suc n))"
| "replace_text_at str (TextObj i x) n = (TextObj i x, n)"

definition set_textContent_at ::
  "'n platform \<Rightarrow> 'n jsval \<Rightarrow> obj \<Rightarrow> nat \<Rightarrow> js_error + obj \<times> nat" where
  "set_textContent_at P v el n =
     and_then (dom_string P v) (\<lambda>str. Inr (replace_text_at str el n))"

definition header_cell_at :: "'n platform \<Rightarrow> 'n jsval \<Rightarrow> nat \<Rightarrow> js_error + obj \<times> nat" where
  "header_cell_at P h n =
     (case createElement_at ''th'' n of (th, n) \<Rightarrow>
        and_then (set_textContent_at P h th n) (\<lambda>(th, n).
          Inr (set_style_at ''textAlign'' ''left''
                (set_style_at ''padding'' ''4px 6px''
                  (set_style_at ''borderBottom'' ''1px solid #ccc'' th)), n)))"

definition body_cell_at :: "'n platform \<Rightarrow> 'n jsval \<Rightarrow> nat \<Rightarrow> js_error + obj \<times> nat" where
  "body_cell_at P cell n =
     (case createElement_at ''td'' n of (td, n) \<Rightarrow>
        and_then (set_textContent_at P cell td n) (\<lambda>(td, n).
          Inr (set_style_at ''borderBottom'' ''1px solid #eee''
                (set_style_at ''padding'' ''3px 6px'' td), n)))"

fun append_each_at ::
  "('a \<Rightarrow> nat \<Rightarrow> js_error + obj \<times> nat) \<Rightarrow> 'a list \<Rightarrow> obj \<Rightarrow> nat \<Rightarrow> js_error + obj \<times> nat" where
  "append_each_at build [] parent n = Inr (parent, n)"
| "append_each_at build (x # xs) parent n =
     and_then (build x n) (\<lambda>(child, n). append_each_at build xs (appendChild_at parent child) n)"

fun append_rows_at :: "'n platform \<Rightarrow> 'n jsval list \<Rightarrow> obj \<Rightarrow> nat \<Rightarrow> js_error + obj \<times> nat" where
  "append_rows_at P [] tbody n = Inr (tbody, n)"
| "append_rows_at P (row # rest) tbody n =
     (case row of
        JArr cells \<Rightarrow>
          (case createElement_at ''tr'' n of (tr, n) \<Rightarrow>
             and_then (append_each_at (body_cell_at P) cells tr n) (\<lambda>(tr, n).
               append_rows_at P rest (appendChild_at tbody tr) n))
      | _ \<Rightarrow> Inl TypeError)"

definition makeTable_at ::
  "'n platform \<Rightarrow> 'n jsval \<Rightarrow> 'n jsval \<Rightarrow> nat \<Rightarrow> js_error + obj \<times> nat" where
  "makeTable_at P headers rows n =
     (case createElement_at ''table'' n of (table, n) \<Rightarrow>
      let table = set_style_at ''borderCollapse'' ''collapse'' table;
          table = set_style_at ''marginBottom'' ''12px'' table;
          table = set_style_at ''fontSize'' ''0.9rem'' table
      in
      case createElement_at ''thead'' n of (thead, n) \<Rightarrow>
      case createElement_at ''tr'' n of (headRow, n) \<Rightarrow>
      case headers of
        JArr hs \<Rightarrow>
          and_then (append_each_at (header_cell_at P) hs headRow n) (\<lambda>(headRow, n).
            let thead = appendChild_at thead headRow;
                table = appendChild_at table thead
            in
            case createElement_at ''tbody'' n of (tbody, n) \<Rightarrow>
            case rows of
              JArr rs \<Rightarrow>
                and_then (append_rows_at P rs tbody n) (\<lambda>(tbody, n).
                  Inr (appendChild_at table tbody, n))
            | _ \<Rightarrow> Inl TypeError)
      | _ \<Rightarrow> Inl TypeError)"

section \<open>Reading the feed\<close>

text \<open>
  An object is the list of its own properties, each key listed once. Reading a property
  of \<^verbatim>\<open>undefined\<close> or \<^verbatim>\<open>null\<close> raises a TypeError; reading a missing property of
  anything else gives \<^verbatim>\<open>undefined\<close>. (The names this script reads are no properties of
  strings, numbers, booleans or arrays.)
\<close>

definition own_prop :: "(string \<times> 'n jsval) list \<Rightarrow> string \<Rightarrow> 'n jsval" where
  "own_prop kvs k = (case map_of kvs k of None \<Rightarrow> JUndefined | Some v \<Rightarrow> v)"

fun get_prop :: "'n jsval \<Rightarrow> string \<Rightarrow> js_error + 'n jsval" where
  "get_prop JUndefined k = Inl TypeError"
| "get_prop JNull k = Inl TypeError"
| "get_prop (JObj kvs) k = Inr (own_prop kvs k)"
| "get_prop v k = Inr JUndefined"

text \<open>Optional chaining \<^verbatim>\<open>v?.k\<close>.\<close>

fun opt_chain :: "'n jsval \<Rightarrow> string \<Rightarrow> 'n jsval" where
  "opt_chain (JObj kvs) k = own_prop kvs k"
| "opt_chain v k = JUndefined"

text \<open>\<^verbatim>\<open>data.outer?.inner || []\<close>\<close>

definition leaders_of :: "'n platform \<Rightarrow> 'n jsval \<Rightarrow> string \<Rightarrow> string \<Rightarrow> js_error + 'n jsval" where
  "leaders_of P data outer inner =
     and_then (get_prop data outer) (\<lambda>g.
       let v = opt_chain g inner in Inr (if truthy P v then v else JArr []))"

text \<open>
  \<^verbatim>\<open>v.toFixed(d)\<close>: only a number has the method; on \<^verbatim>\<open>undefined\<close> and \<^verbatim>\<open>null\<close> the
  property read fails, on every other value the call of a non-function fails.
\<close>

fun to_fixed :: "'n platform \<Rightarrow> nat \<Rightarrow> 'n jsval \<Rightarrow> js_error + string" where
  "to_fixed P d (JNum x) = Inr (num_to_fixed P d x)"
| "to_fixed P d v = Inl TypeError"

text \<open>
  The four row callbacks \<^verbatim>\<open>(p, i) => [...]\<close>, evaluated left to right; a template
  literal converts its value to a string as soon as it has read it.
\<close>

definition ppg_row :: "'n platform \<Rightarrow> 'n jsval \<Rightarrow> nat \<Rightarrow> js_error + 'n jsval" where
  "ppg_row P p i =
     and_then (get_prop p ''player'') (\<lambda>player.
     and_then (get_prop p ''team'') (\<lambda>team.
     and_then (get_prop p ''ppg'') (\<lambda>ppg.
     and_then (to_fixed P 1 ppg) (\<lambda>fixed.
     and_then (get_prop p ''pts'') (\<lambda>pts.
     and_then (to_string P pts) (\<lambda>pts_text.
     and_then (get_prop p ''gp'') (\<lambda>gp.
     and_then (to_string P gp) (\<lambda>gp_text.
       Inr (JArr [JNum (num_of_nat P (i + 1)), player, team,
                  JStr (fixed @ '' ppg''),
                  JStr (pts_text @ '' pts''),
                  JStr (gp_text @ '' gp'')])))))))))"

definition pts_row :: "'n platform \<Rightarrow> 'n jsval \<Rightarrow> nat \<Rightarrow> js_error + 'n jsval" where
  "pts_row P p i =
     and_then (get_prop p ''player'') (\<lambda>player.
     and_then (get_prop p ''team'') (\<lambda>team.
     and_then (get_prop p ''pts'') (\<lambda>pts.
     and_then (to_string P pts) (\<lambda>pts_text.
     and_then (get_prop p ''gp'') (\<lambda>gp.
     and_then (to_string P gp) (\<lambda>gp_text.
       Inr (JArr [JNum (num_of_nat P (i + 1)), player, team,
                  JStr (pts_text @ '' pts''),
                  JStr (gp_text @ '' gp'')])))))))"

definition threes_row :: "'n platform \<Rightarrow> 'n jsval \<Rightarrow> nat \<Rightarrow> js_error + 'n jsval" where
  "threes_row P p i =
     and_then (get_prop p ''player'') (\<lambda>player.
     and_then (get_prop p ''team'') (\<lambda>team.
     and_then (get_prop p ''threes'') (\<lambda>threes.
     and_then (get_prop p ''gp'') (\<lambda>gp.
     and_then (to_string P gp) (\<lambda>gp_text.
       Inr (JArr [JNum (num_of_nat P (i + 1)), player, team, threes,
                  JStr (gp_text @ '' gp'')]))))))"

definition team_row :: "'n platform \<Rightarrow> 'n jsval \<Rightarrow> nat \<Rightarrow> js_error + 'n jsval" where
  "team_row P t i =
     and_then (get_prop t ''team'') (\<lambda>team.
     and_then (get_prop t ''ppg'') (\<lambda>ppg.
     and_then (to_fixed P 1 ppg) (\<lambda>fixed.
     and_then (get_prop t ''pts_for'') (\<lambda>pts_for.
     and_then (to_string P pts_for) (\<lambda>pts_text.
     and_then (get_prop t ''gp'') (\<lambda>gp.
     and_then (to_string P gp) (\<lambda>gp_text.
       Inr (JArr [JNum (num_of_nat P (i + 1)), team,
                  JStr (fixed @ '' ppg''),
                  JStr (pts_text @ '' pts''),
                  JStr (gp_text @ '' gp'')]))))))))"

text \<open>
  \<^verbatim>\<open>xs.map(f)\<close>: the callback gets each element and its index, from index 0 upwards,
  and the first exception ends the loop. A value that is not an array has no \<^verbatim>\<open>map\<close>.
\<close>

fun map_from ::
  "('n jsval \<Rightarrow> nat \<Rightarrow> js_error + 'n jsval) \<Rightarrow> nat \<Rightarrow> 'n jsval list \<Rightarrow> js_error + 'n jsval list" where
  "map_from f i [] = Inr []"
| "map_from f i (x # xs) =
     and_then (f x i) (\<lambda>y. and_then (map_from f (Suc i) xs) (\<lambda>ys. Inr (y # ys)))"

fun array_map :: "('n jsval \<Rightarrow> nat \<Rightarrow> js_error + 'n jsval) \<Rightarrow> 'n jsval \<Rightarrow> js_error + 'n jsval" where
  "array_map f (JArr xs) = and_then (map_from f 0 xs) (\<lambda>ys. Inr (JArr ys))"
| "array_map f v = Inl TypeError"

section \<open>The page\<close>

text \<open>
  The document is its root node. \<^verbatim>\<open>getElementById\<close> returns the first element in tree
  order with the given id. The script keeps the element it found and writes to it
  later; here a write goes to the first element with that id at the time of the write,
  which is the same element as long as ids are unique in the document, and no element
  at all (the document is unchanged) once that element has been removed from it.
\<close>

fun getElementById :: "string \<Rightarrow> node \<Rightarrow> node option"
  and find_in :: "string \<Rightarrow> node list \<Rightarrow> node option" where
  "getElementById i (Text x) = None"
| "getElementById i (Element t a s c) =
     (if a = Some i then Some (Element t a s c) else find_in i c)"
| "find_in i [] = None"
| "find_in i (n # ns) =
     (case getElementById i n of Some e \<Rightarrow> Some e | None \<Rightarrow> find_in i ns)"

fun update_element :: "string \<Rightarrow> (node \<Rightarrow> node) \<Rightarrow> node \<Rightarrow> node"
  and update_in :: "string \<Rightarrow> (node \<Rightarrow> node) \<Rightarrow> node list \<Rightarrow> node list" where
  "update_element i g (Text x) = Text x"
| "update_element i g (Element t a s c) =
     (if a = Some i then g (Element t a s c) else Element t a s (update_in i g c))"
| "update_in i g [] = []"
| "update_in i g (n # ns) =
     (case getElementById i n of
        Some e \<Rightarrow> update_element i g n # ns
      | None \<Rightarrow> n # update_in i g ns)"

text \<open>\<^verbatim>\<open>el.innerHTML = ""\<close> removes all children.\<close>

fun clear_innerHTML :: "node \<Rightarrow> node" where
  "clear_innerHTML (Element t a s c) = Element t a s []"
| "clear_innerHTML (Text x) = Text x"

section \<open>The handlers of the fetch\<close>

text \<open>
  A handler returns the document it leaves behind; when it throws, it returns the
  exception together with the document as it was at the throw.
\<close>

definition throws_in :: "node \<Rightarrow> js_error + 'a \<Rightarrow> (js_error \<times> node) + 'a" where
  "throws_in doc r = (case r of Inl e \<Rightarrow> Inl (e, doc) | Inr x \<Rightarrow> Inr x)"

text \<open>
  One \<^verbatim>\<open>if (div) { ... }\<close> block: \<open>present\<close> says whether the lookup of the region
  returned an element. The region is emptied before the rows are computed.
\<close>

definition render_section ::
  "'n platform \<Rightarrow> string \<Rightarrow> bool \<Rightarrow> string list \<Rightarrow> ('n jsval \<Rightarrow> nat \<Rightarrow> js_error + 'n jsval)
     \<Rightarrow> 'n jsval \<Rightarrow> node \<Rightarrow> (js_error \<times> node) + node" where
  "render_section P region present headers row_of leaders doc =
     (if present then
        (let doc = update_element region clear_innerHTML doc in
         and_then (throws_in doc (array_map row_of leaders)) (\<lambda>rows.
         and_then (throws_in doc (makeTable P (JArr (map JStr headers)) rows)) (\<lambda>table.
           Inr (update_element region (\<lambda>el. appendChild el table) doc))))
      else Inr doc)"

text \<open>
  The timestamp: \<^verbatim>\<open>updatedEl.textContent = data.generated_at\<close>, when the element is
  there and the value is truthy. The value is converted to a string before the
  element is written.
\<close>

definition update_timestamp :: "'n platform \<Rightarrow> 'n jsval \<Rightarrow> node \<Rightarrow> (js_error \<times> node) + node" where
  "update_timestamp P data doc =
     (case getElementById ''leaders-updated'' doc of
        None \<Rightarrow> Inr doc
      | Some updatedEl \<Rightarrow>
          and_then (throws_in doc (get_prop data ''generated_at'')) (\<lambda>generated_at.
            if truthy P generated_at
            then and_then (throws_in doc (dom_string P generated_at)) (\<lambda>str.
                   Inr (update_element ''leaders-updated'' (replace_text str) doc))
            else Inr doc))"

definition ppg_headers :: "string list" where
  "ppg_headers = [''#'', ''Player'', ''Team'', ''PPG'', ''Total Pts'', ''GP'']"

definition pts_headers :: "string list" where
  "pts_headers = [''#'', ''Player'', ''Team'', ''Total Pts'', ''GP'']"

definition threes_headers :: "string list" where
  "threes_headers = [''#'', ''Player'', ''Team'', ''3PM'', ''GP'']"

definition teams_headers :: "string list" where
  "teams_headers = [''#'', ''Team'', ''PPG'', ''Total Pts'', ''GP'']"

text \<open>The callback of \<^verbatim>\<open>.then((data) => ...)\<close>.\<close>

definition on_data :: "'n platform \<Rightarrow> 'n jsval \<Rightarrow> node \<Rightarrow> (js_error \<times> node) + node" where
  "on_data P data doc0 =
     and_then (update_timestamp P data doc0) (\<lambda>doc.
       let ppgDiv = getElementById ''leaders-ppg'' doc;
           ptsDiv = getElementById ''leaders-pts'' doc;
           threesDiv = getElementById ''leaders-threes'' doc;
           teamsDiv = getElementById ''leaders-teams'' doc
       in
       and_then (throws_in doc (leaders_of P data ''player_leaders'' ''points_per_game'')) (\<lambda>ppg.
       and_then (throws_in doc (leaders_of P data ''player_leaders'' ''points_total'')) (\<lambda>pts.
       and_then (throws_in doc (leaders_of P data ''player_leaders'' ''three_pointers_made'')) (\<lambda>threes.
       and_then (throws_in doc (leaders_of P data ''team_leaders'' ''offense_points_per_game'')) (\<lambda>teamOff.
       and_then (render_section P ''leaders-ppg'' (ppgDiv \<noteq> None) ppg_headers (ppg_row P) ppg doc) (\<lambda>doc.
       and_then (render_section P ''leaders-pts'' (ptsDiv \<noteq> None) pts_headers (pts_row P) pts doc) (\<lambda>doc.
       and_then (render_section P ''leaders-threes'' (threesDiv \<noteq> None) threes_headers (threes_row P) threes doc) (\<lambda>doc.
         render_section P ''leaders-teams'' (teamsDiv \<noteq> None) teams_headers (team_row P) teamOff doc))))))))"

text \<open>
  The callback of \<^verbatim>\<open>.catch((err) => ...)\<close>. Its \<^verbatim>\<open>console.error\<close> does not touch the
  document.
\<close>

definition on_error :: "node \<Rightarrow> node" where
  "on_error doc =
     (case getElementById ''leaders-container'' doc of
        None \<Rightarrow> doc
      | Some container \<Rightarrow>
          update_element ''leaders-container'' (replace_text ''Error loading leaders data.'') doc)"

text \<open>
  The promise chain: the fetch is rejected, or the body is not JSON and \<^verbatim>\<open>r.json()\<close> is
  rejected, or the parsed document reaches the \<^verbatim>\<open>then\<close> callback; a rejection and an
  exception of the callback both reach the \<^verbatim>\<open>catch\<close> callback.
\<close>

datatype 'n fetched = FetchRejected | JsonRejected | Parsed "'n jsval"

definition load_leaders :: "'n platform \<Rightarrow> 'n fetched \<Rightarrow> node \<Rightarrow> node" where
  "load_leaders P r doc =
     (case r of
        Parsed data \<Rightarrow>
          (case on_data P data doc of
             Inl (err, doc') \<Rightarrow> on_error doc'
           | Inr doc' \<Rightarrow> doc')
      | _ \<Rightarrow> on_error doc)"

section \<open>Auxiliary definitions for the statements\<close>

text \<open>The values a row holds according to the data model: numbers and strings.\<close>

fun scalar :: "'n jsval \<Rightarrow> bool" where
  "scalar (JNum x) = True"
| "scalar (JStr s) = True"
| "scalar v = False"

fun tagName :: "node \<Rightarrow> string" where
  "tagName (Element t a s c) = t"
| "tagName (Text x) = []"

text \<open>What a run of \<open>makeTable_at\<close> returns, with the identities dropped.\<close>

fun without_ids :: "js_error + obj \<times> nat \<Rightarrow> js_error + node" where
  "without_ids (Inl e) = Inl e"
| "without_ids (Inr (el, n)) = Inr (forget el)"

text \<open>
  A leaderboard entry as the spec describes it: a flat record of numeric and string
  fields.
\<close>

definition flat_record :: "(string \<times> 'n jsval) list \<Rightarrow> bool" where
  "flat_record kvs = list_all (\<lambda>kv. scalar (snd kv)) kvs"

text \<open>
  The table in closed form: the cells with the texts \<open>hs\<close> in the header row, and one
  body row for each list of texts in \<open>ts\<close>.
\<close>

definition th_of :: "string \<Rightarrow> node" where
  "th_of str =
     Element ''th'' None
       [(''borderBottom'', ''1px solid #ccc''), (''padding'', ''4px 6px''), (''textAlign'', ''left'')]
       (if str = [] then [] else [Text str])"

definition td_of :: "string \<Rightarrow> node" where
  "td_of str =
     Element ''td'' None
       [(''padding'', ''3px 6px''), (''borderBottom'', ''1px solid #eee'')]
       (if str = [] then [] else [Text str])"

definition tr_of :: "string list \<Rightarrow> node" where
  "tr_of strs = Element ''tr'' None [] (map td_of strs)"

definition table_of :: "string list \<Rightarrow> string list list \<Rightarrow> node" where
  "table_of hs ts =
     Element ''table'' None
       [(''borderCollapse'', ''collapse''), (''marginBottom'', ''12px''), (''fontSize'', ''0.9rem'')]
       [Element ''thead'' None [] [Element ''tr'' None [] (map th_of hs)],
        Element ''tbody'' None [] (map tr_of ts)]"

text \<open>The texts of a list of values, converted one after the other as the loops do.\<close>

fun texts_of :: "'n platform \<Rightarrow> 'n jsval list \<Rightarrow> js_error + string list" where
  "texts_of P [] = Inr []"
| "texts_of P (v # vs) =
     and_then (dom_string P v) (\<lambda>str. and_then (texts_of P vs) (\<lambda>strs. Inr (str # strs)))"

fun rows_texts_of :: "'n platform \<Rightarrow> 'n jsval list list \<Rightarrow> js_error + string list list" where
  "rows_texts_of P [] = Inr []"
| "rows_texts_of P (r # rs) =
     and_then (texts_of P r) (\<lambda>strs. and_then (rows_texts_of P rs) (\<lambda>rest. Inr (strs # rest)))"

text \<open>
  A platform to run the model on: its numbers are the natural numbers, printed in
  decimal, with \<^verbatim>\<open>toFixed(d)\<close> adding \<open>d\<close> zeros after the point.
\<close>

function decimal :: "nat \<Rightarrow> string" where
  "decimal n =
     (if n < 10 then [''0123456789'' ! n]
      else decimal (n div 10) @ [''0123456789'' ! (n mod 10)])"
  by pat_completeness auto
termination
  by (relation "measure (\<lambda>n. n)") auto

declare decimal.simps [simp del]

definition nat_platform :: "nat platform" where
  "nat_platform =
     \<lparr>num_of_nat = (\<lambda>n. n),
      num_to_string = decimal,
      num_to_fixed = (\<lambda>d n. decimal n @ (if d = 0 then [] else ''.'' @ replicate d CHR ''0'')),
      num_truthy = (\<lambda>n. n \<noteq> 0)\<rparr>"

definition example_row :: "nat jsval list" where
  "example_row =
     [JNum 1, JStr ''A. Example'', JStr ''XYZ'', JStr ''23.4 ppg'', JStr ''812 pts'', JStr ''35 gp'']"

text \<open>A feed, a record without \<^verbatim>\<open>ppg\<close> and a page to run the script on.\<close>

definition example_record :: "nat jsval" where
  "example_record =
     JObj [(''player'', JStr ''A. Example''), (''team'', JStr ''XYZ''),
           (''ppg'', JNum 23), (''pts'', JNum 812), (''gp'', JNum 35), (''threes'', JNum 70)]"

definition record_without_ppg :: "nat jsval" where
  "record_without_ppg =
     JObj [(''player'', JStr ''B. Example''), (''team'', JStr ''XYZ''), (''pts'', JNum 640), (''gp'', JNum 32)]"

definition example_feed :: "nat jsval" where
  "example_feed =
     JObj [(''generated_at'', JStr ''2024-01-05''),
           (''player_leaders'', JObj [(''points_per_game'', JArr [example_record])])]"

definition example_page :: node where
  "example_page =
     Element ''div'' (Some ''leaders-container'') []
       [Element ''span'' (Some ''leaders-updated'') [] [],
        Element ''div'' (Some ''leaders-ppg'') [] [Text ''Loading''],
        Element ''div'' (Some ''leaders-pts'') [] [Text ''Loading''],
        Element ''div'' (Some ''leaders-threes'') [] [Text ''Loading''],
        Element ''div'' (Some ''leaders-teams'') [] [Text ''Loading'']]"

text \<open>A feed whose only record lacks \<^verbatim>\<open>ppg\<close>, and a page without the error region.\<close>

definition bad_feed :: "nat jsval" where
  "bad_feed = JObj [(''player_leaders'', JObj [(''points_per_game'', JArr [record_without_ppg])])]"

definition bare_page :: node where
  "bare_page =
     Element ''body'' None []
       [Element ''span'' (Some ''leaders-updated'') [] [],
        Element ''div'' (Some ''leaders-ppg'') [] [Text ''Loading''],
        Element ''div'' (Some ''leaders-pts'') [] [Text ''Loading''],
        Element ''div'' (Some ''leaders-threes'') [] [Text ''Loading''],
        Element ''div'' (Some ''leaders-teams'') [] [Text ''Loading'']]"

text \<open>The ids the data callback looks up.\<close>

definition looked_up :: "string list" where
  "looked_up =
     [''leaders-updated'', ''leaders-ppg'', ''leaders-pts'', ''leaders-threes'', ''leaders-teams'']"

definition holds_none :: "string list \<Rightarrow> node list \<Rightarrow> bool" where
  "holds_none ids c = list_all (\<lambda>j. find_in j c = None) ids"

text \<open>
  Modelled from the spec: the page, whose HTML is not among the sources. The spec calls
  the four display regions independent and names each by a stable external name; here
  this reads: none of the five elements the callback looks up has, among its
  descendants, an element with one of the five ids.
\<close>

definition separate :: "node \<Rightarrow> bool" where
  "separate doc =
     list_all (\<lambda>i. case getElementById i doc of
                     None \<Rightarrow> True
                   | Some el \<Rightarrow> holds_none looked_up (childNodes el)) looked_up"

definition region_ids :: "string list" where
  "region_ids = [''leaders-ppg'', ''leaders-pts'', ''leaders-threes'', ''leaders-teams'']"

text \<open>
  Modelled from the spec: the page again. The spec has the error-display region take
  the place of all four display regions when it receives the message, so the regions
  lie inside the element \<^verbatim>\<open>leaders-container\<close>: each is found among its descendants,
  and none is found in the page once that element is emptied.
\<close>

definition regions_in_container :: "node \<Rightarrow> bool" where
  "regions_in_container doc =
     (case getElementById ''leaders-container'' doc of
        None \<Rightarrow> False
      | Some container \<Rightarrow>
          list_all (\<lambda>i. find_in i (childNodes container) \<noteq> None
                       \<and> getElementById i (update_element ''leaders-container'' clear_innerHTML doc) = None)
            region_ids)"


section \<open>Properties of makeTable\<close>

lemma and_then_Inr:
  "and_then r f = Inr y \<longleftrightarrow> (\<exists>v. r = Inr v \<and> f v = Inr y)"
  by (cases r) simp_all

lemma header_cell_text: "header_cell P h = and_then (dom_string P h) (\<lambda>str. Inr (th_of str))"
  by (cases "dom_string P h")
     (simp_all add: header_cell_def set_textContent_def createElement_def th_of_def)

lemma body_cell_text: "body_cell P v = and_then (dom_string P v) (\<lambda>str. Inr (td_of str))"
  by (cases "dom_string P v")
     (simp_all add: body_cell_def set_textContent_def createElement_def td_of_def)

text \<open>The loop over the headers: it appends the cells of the texts, or raises.\<close>

lemma append_each_headers:
  "append_each (header_cell P) hs (Element t a s c) =
     and_then (texts_of P hs) (\<lambda>strs. Inr (Element t a s (c @ map th_of strs)))"
proof (induction hs arbitrary: c)
  case Nil
  show ?case by simp
next
  case (Cons h hs)
  show ?case
    by (cases "dom_string P h"; cases "texts_of P hs") (simp_all add: header_cell_text [of P h] Cons.IH)
qed

lemma append_each_cells:
  "append_each (body_cell P) vs (Element t a s c) =
     and_then (texts_of P vs) (\<lambda>strs. Inr (Element t a s (c @ map td_of strs)))"
proof (induction vs arbitrary: c)
  case Nil
  show ?case by simp
next
  case (Cons v vs)
  show ?case
    by (cases "dom_string P v"; cases "texts_of P vs") (simp_all add: body_cell_text [of P v] Cons.IH)
qed

lemma append_rows_arrays:
  "append_rows P (map JArr R) (Element t a s c) =
     and_then (rows_texts_of P R) (\<lambda>ts. Inr (Element t a s (c @ map tr_of ts)))"
proof (induction R arbitrary: c)
  case Nil
  show ?case by simp
next
  case (Cons r R)
  show ?case
    by (cases "texts_of P r"; cases "rows_texts_of P R")
       (simp_all add: append_each_cells createElement_def tr_of_def Cons.IH)
qed

text \<open>
  The table built from an array of headers and an array of arrays: the closed form for
  the texts of the values, or the first exception of a conversion.
\<close>

lemma makeTable_arrays:
  "makeTable P (JArr H) (JArr (map JArr R)) =
     and_then (texts_of P H) (\<lambda>hs. and_then (rows_texts_of P R) (\<lambda>ts. Inr (table_of hs ts)))"
  by (cases "texts_of P H"; cases "rows_texts_of P R")
     (simp_all add: makeTable_def createElement_def append_each_headers append_rows_arrays table_of_def)

lemma table_of_parts:
  "header_cells (table_of hs ts) = map th_of hs"
  "body_rows (table_of hs ts) = map tr_of ts"
  "map tagName (childNodes (table_of hs ts)) = [''thead'', ''tbody'']"
  by (simp_all add: table_of_def)

lemma cell_texts:
  "textContent (th_of str) = str" "textContent (td_of str) = str"
  "childNodes (tr_of strs) = map td_of strs"
  by (simp_all add: th_of_def td_of_def tr_of_def)

lemma table_of_texts:
  "header_texts (table_of hs ts) = hs" "row_texts (table_of hs ts) = ts"
  by (simp_all add: header_texts_def row_texts_def table_of_parts cell_texts comp_def map_idI)

lemma texts_of_Inr: "texts_of P vs = Inr strs \<longleftrightarrow> map (dom_string P) vs = map Inr strs"
proof (induction vs arbitrary: strs)
  case Nil
  show ?case by auto
next
  case (Cons v vs)
  show ?case
    by (cases strs) (auto simp add: and_then_Inr Cons.IH)
qed

lemma rows_texts_of_Inr: "rows_texts_of P R = Inr ts \<longleftrightarrow> map (texts_of P) R = map Inr ts"
proof (induction R arbitrary: ts)
  case Nil
  show ?case by auto
next
  case (Cons r R)
  show ?case
    by (cases ts) (auto simp add: and_then_Inr Cons.IH)
qed

lemma texts_of_strings: "texts_of P (map JStr H) = Inr H"
  by (induction H) simp_all

lemma scalar_text: "scalar v \<Longrightarrow> \<exists>str. to_string P v = Inr str \<and> dom_string P v = Inr str"
  by (cases v) simp_all

lemma texts_of_scalars:
  "\<forall>v \<in> set vs. scalar v \<Longrightarrow>
     \<exists>strs. texts_of P vs = Inr strs \<and> map (to_string P) vs = map Inr strs"
proof (induction vs)
  case Nil
  show ?case by simp
next
  case (Cons v vs)
  from Cons.prems have "scalar v" by simp
  from scalar_text [OF this, of P] obtain str where "to_string P v = Inr str" "dom_string P v = Inr str"
    by (elim exE conjE)
  moreover from Cons obtain strs where "texts_of P vs = Inr strs" "map (to_string P) vs = map Inr strs"
    by auto
  ultimately have "texts_of P (v # vs) = Inr (str # strs)
      \<and> map (to_string P) (v # vs) = map Inr (str # strs)"
    by simp
  then show ?case by (rule exI)
qed

lemma rows_texts_of_scalars:
  "\<forall>r \<in> set R. \<forall>v \<in> set r. scalar v \<Longrightarrow>
     \<exists>ts. rows_texts_of P R = Inr ts \<and> map (map (to_string P)) R = map (map Inr) ts"
proof (induction R)
  case Nil
  show ?case by simp
next
  case (Cons r R)
  from Cons.prems have "\<forall>v \<in> set r. scalar v" by simp
  from texts_of_scalars [OF this, of P] obtain strs where
    "texts_of P r = Inr strs" "map (to_string P) r = map Inr strs"
    by (elim exE conjE)
  moreover from Cons obtain ts where "rows_texts_of P R = Inr ts"
    "map (map (to_string P)) R = map (map Inr) ts"
    by auto
  ultimately have "rows_texts_of P (r # R) = Inr (strs # ts)
      \<and> map (map (to_string P)) (r # R) = map (map Inr) (strs # ts)"
    by simp
  then show ?case by (rule exI)
qed

lemma makeTable_scalars:
  assumes sc: "\<forall>r \<in> set R. \<forall>v \<in> set r. scalar v"
  obtains ts where "makeTable P (JArr (map JStr H)) (JArr (map JArr R)) = Inr (table_of H ts)"
    and "map (map (to_string P)) R = map (map Inr) ts"
proof -
  from rows_texts_of_scalars [OF sc, of P] obtain ts where
    r: "rows_texts_of P R = Inr ts" and t: "map (map (to_string P)) R = map (map Inr) ts"
    by (elim exE conjE)
  have "makeTable P (JArr (map JStr H)) (JArr (map JArr R)) = Inr (table_of H ts)"
    by (simp add: makeTable_arrays texts_of_strings r)
  with t that show thesis by simp
qed

lemma nested_map_nth:
  assumes eq: "map (map f) R = map (map g) ts" and i: "i < length R"
  shows "length (ts ! i) = length (R ! i)"
    and "j < length (R ! i) \<Longrightarrow> f (R ! i ! j) = g (ts ! i ! j)"
proof -
  from eq have len: "length ts = length R"
    by (metis length_map)
  from eq have "map (map f) R ! i = map (map g) ts ! i" by simp
  with i len have row: "map f (R ! i) = map g (ts ! i)" by simp
  then show "length (ts ! i) = length (R ! i)"
    by (metis length_map)
  assume j: "j < length (R ! i)"
  from row have "map f (R ! i) ! j = map g (ts ! i) ! j" by simp
  with j \<open>length (ts ! i) = length (R ! i)\<close> show "f (R ! i ! j) = g (ts ! i ! j)" by simp
qed

text \<open>
  C1. For headers \<open>H\<close> (strings) and rows \<open>R\<close> of numbers and strings in which every row
  is as long as \<open>H\<close>, \<open>makeTable\<close> returns a table with \<open>|H|\<close> header cells and \<open>|R|\<close>
  body rows; the header texts are \<open>H\<close> and the text of cell \<open>j\<close> of body row \<open>i\<close> is the
  string form of value \<open>j\<close> of input row \<open>i\<close>, all in the order of the input.
\<close>

theorem makeTable_renders_in_order:
  assumes len: "\<forall>r \<in> set R. length r = length H"
    and sc: "\<forall>r \<in> set R. \<forall>v \<in> set r. scalar v"
  shows "\<exists>table. makeTable P (JArr (map JStr H)) (JArr (map JArr R)) = Inr table
           \<and> length (header_cells table) = length H
           \<and> length (body_rows table) = length R
           \<and> header_texts table = H
           \<and> map (map (to_string P)) R = map (map Inr) (row_texts table)
           \<and> (\<forall>i < length R. length (childNodes (body_rows table ! i)) = length H
                 \<and> (\<forall>j < length H.
                      to_string P (R ! i ! j) = Inr (textContent (childNodes (body_rows table ! i) ! j))))"
proof -
  from makeTable_scalars [OF sc, of P H] obtain ts where
    t: "makeTable P (JArr (map JStr H)) (JArr (map JArr R)) = Inr (table_of H ts)"
    and eq: "map (map (to_string P)) R = map (map Inr) ts"
    by blast
  from eq have lts: "length ts = length R"
    by (metis length_map)
  have cells: "\<forall>i < length R. length (childNodes (body_rows (table_of H ts) ! i)) = length H
                 \<and> (\<forall>j < length H.
                      to_string P (R ! i ! j) =
                        Inr (textContent (childNodes (body_rows (table_of H ts) ! i) ! j)))"
  proof (intro allI impI conjI)
    fix i assume i: "i < length R"
    then have ri: "length (R ! i) = length H" using len by simp
    note n = nested_map_nth [OF eq i]
    show "length (childNodes (body_rows (table_of H ts) ! i)) = length H"
      using i lts n(1) ri by (simp add: table_of_parts cell_texts)
    fix j assume j: "j < length H"
    with ri have "j < length (R ! i)" by simp
    from n(2) [OF this] show "to_string P (R ! i ! j) =
        Inr (textContent (childNodes (body_rows (table_of H ts) ! i) ! j))"
      using i j lts n(1) ri by (simp add: table_of_parts cell_texts)
  qed
  show ?thesis
  proof (rule exI [of _ "table_of H ts"], intro conjI)
    show "makeTable P (JArr (map JStr H)) (JArr (map JArr R)) = Inr (table_of H ts)"
      by (rule t)
    show "length (header_cells (table_of H ts)) = length H"
      by (simp add: table_of_parts)
    show "length (body_rows (table_of H ts)) = length R"
      by (simp add: table_of_parts lts)
    show "header_texts (table_of H ts) = H"
      by (rule table_of_texts)
    show "map (map (to_string P)) R = map (map Inr) (row_texts (table_of H ts))"
      by (simp add: table_of_texts eq)
  qed (rule cells)
qed

theorem makeTable_renders_in_order_witness:
  "length example_row = length ppg_headers \<and> list_all scalar example_row \<and>
   (\<exists>table. makeTable nat_platform (JArr (map JStr ppg_headers)) (JArr (map JArr [example_row])) = Inr table
      \<and> length (header_cells table) = 6
      \<and> length (body_rows table) = 1
      \<and> header_texts table = [''#'', ''Player'', ''Team'', ''PPG'', ''Total Pts'', ''GP'']
      \<and> row_texts table = [[''1'', ''A. Example'', ''XYZ'', ''23.4 ppg'', ''812 pts'', ''35 gp'']])"
proof -
  have len: "\<forall>r \<in> set [example_row]. length r = length ppg_headers"
    by (simp add: example_row_def ppg_headers_def)
  have sc: "\<forall>r \<in> set [example_row]. \<forall>v \<in> set r. scalar v"
    by (simp add: example_row_def)
  from makeTable_renders_in_order [OF len sc, of nat_platform]
  obtain table where
    t: "makeTable nat_platform (JArr (map JStr ppg_headers)) (JArr (map JArr [example_row])) = Inr table"
    and hc: "length (header_cells table) = length ppg_headers"
    and br: "length (body_rows table) = length [example_row]"
    and ht: "header_texts table = ppg_headers"
    and rt: "map (map (to_string nat_platform)) [example_row] = map (map Inr) (row_texts table)"
    by (elim exE conjE)
  from rt have "row_texts table = [[''1'', ''A. Example'', ''XYZ'', ''23.4 ppg'', ''812 pts'', ''35 gp'']]"
    by (auto simp add: example_row_def nat_platform_def decimal.simps Cons_eq_map_conv)
  with t hc br ht show ?thesis
    by (simp add: example_row_def ppg_headers_def)
qed

text \<open>
  C2. For any string headers \<open>H\<close> and any rows \<open>R\<close> of numbers and strings, whatever
  their lengths, \<open>makeTable\<close> returns a table (no error), and body row \<open>i\<close> has exactly
  one cell for each value of input row \<open>i\<close>, showing that value: a short row has fewer
  cells than there are headers, a long row keeps all of its cells.
\<close>

theorem makeTable_ragged_rows:
  assumes sc: "\<forall>r \<in> set R. \<forall>v \<in> set r. scalar v"
  shows "\<exists>table. makeTable P (JArr (map JStr H)) (JArr (map JArr R)) = Inr table
     \<and> length (header_cells table) = length H
     \<and> map (\<lambda>tr. length (childNodes tr)) (body_rows table) = map length R
     \<and> map (map (to_string P)) R = map (map Inr) (row_texts table)"
proof -
  from makeTable_scalars [OF sc, of P H] obtain ts where
    t: "makeTable P (JArr (map JStr H)) (JArr (map JArr R)) = Inr (table_of H ts)"
    and eq: "map (map (to_string P)) R = map (map Inr) ts"
    by blast
  from eq have "map length (map (map (to_string P)) R) = map length (map (map Inr) ts)"
    by simp
  then have lens: "map length ts = map length R"
    by (simp add: comp_def)
  show ?thesis
  proof (rule exI [of _ "table_of H ts"], intro conjI)
    show "makeTable P (JArr (map JStr H)) (JArr (map JArr R)) = Inr (table_of H ts)"
      by (rule t)
    show "length (header_cells (table_of H ts)) = length H"
      by (simp add: table_of_parts)
    show "map (\<lambda>tr. length (childNodes tr)) (body_rows (table_of H ts)) = map length R"
      using lens by (simp add: table_of_parts cell_texts comp_def)
    show "map (map (to_string P)) R = map (map Inr) (row_texts (table_of H ts))"
      by (simp add: table_of_texts eq)
  qed
qed

theorem makeTable_ragged_rows_witness:
  "\<exists>table. makeTable nat_platform (JArr (map JStr [''#'', ''Team'']))
       (JArr (map JArr [[JNum 1], [JNum 2, JStr ''XYZ'', JStr ''31 gp''], []])) = Inr table
     \<and> length (header_cells table) = 2
     \<and> map (\<lambda>tr. length (childNodes tr)) (body_rows table) = [1, 3, 0]
     \<and> row_texts table = [[''1''], [''2'', ''XYZ'', ''31 gp''], []]"
proof -
  let ?R = "[[JNum 1], [JNum 2, JStr ''XYZ'', JStr ''31 gp''], []] :: nat jsval list list"
  have sc: "\<forall>r \<in> set ?R. \<forall>v \<in> set r. scalar v" by simp
  from makeTable_ragged_rows [OF sc, of nat_platform "[''#'', ''Team'']"]
  obtain table where
    t: "makeTable nat_platform (JArr (map JStr [''#'', ''Team''])) (JArr (map JArr ?R)) = Inr table"
    and hc: "length (header_cells table) = length [''#'', ''Team'']"
    and ls: "map (\<lambda>tr. length (childNodes tr)) (body_rows table) = map length ?R"
    and rt: "map (map (to_string nat_platform)) ?R = map (map Inr) (row_texts table)"
    by (elim exE conjE)
  from rt have rt': "row_texts table = [[''1''], [''2'', ''XYZ'', ''31 gp''], []]"
    by (auto simp add: nat_platform_def decimal.simps Cons_eq_map_conv)
  show ?thesis
  proof (rule exI [of _ table], intro conjI)
    show "makeTable nat_platform (JArr (map JStr [''#'', ''Team''])) (JArr (map JArr ?R)) = Inr table"
      by (rule t)
    show "length (header_cells table) = 2" using hc by simp
    show "map (\<lambda>tr. length (childNodes tr)) (body_rows table) = [1, 3, 0]" using ls by simp
    show "row_texts table = [[''1''], [''2'', ''XYZ'', ''31 gp''], []]" by (rule rt')
  qed
qed

text \<open>
  C3. With no rows, \<open>makeTable\<close> returns a table with a header section of \<open>|H|\<close> cells
  and an empty body; with no headers, it returns a table with no header cell and \<open>|R|\<close>
  body rows that show the values given. The headers are strings and the values
  numbers and strings.
\<close>

theorem makeTable_empty_inputs:
  assumes sc: "\<forall>r \<in> set R. \<forall>v \<in> set r. scalar v"
  shows "(\<exists>table. makeTable P (JArr (map JStr H)) (JArr []) = Inr table
      \<and> map tagName (childNodes table) = [''thead'', ''tbody'']
      \<and> length (header_cells table) = length H
      \<and> header_texts table = H
      \<and> body_rows table = [])
   \<and> (\<exists>table. makeTable P (JArr []) (JArr (map JArr R)) = Inr table
      \<and> map tagName (childNodes table) = [''thead'', ''tbody'']
      \<and> header_cells table = []
      \<and> length (body_rows table) = length R
      \<and> map (map (to_string P)) R = map (map Inr) (row_texts table))"
proof (rule conjI)
  have t: "makeTable P (JArr (map JStr H)) (JArr []) = Inr (table_of H [])"
    using makeTable_arrays [of P "map JStr H" "[]"] by (simp add: texts_of_strings)
  show "\<exists>table. makeTable P (JArr (map JStr H)) (JArr []) = Inr table
      \<and> map tagName (childNodes table) = [''thead'', ''tbody'']
      \<and> length (header_cells table) = length H
      \<and> header_texts table = H
      \<and> body_rows table = []"
    by (rule exI [of _ "table_of H []"]) (simp add: t table_of_parts table_of_texts)
  from makeTable_scalars [OF sc, of P "[]"] obtain ts where
    t': "makeTable P (JArr []) (JArr (map JArr R)) = Inr (table_of [] ts)"
    and eq: "map (map (to_string P)) R = map (map Inr) ts"
    by auto
  from eq have lts: "length ts = length R"
    by (metis length_map)
  show "\<exists>table. makeTable P (JArr []) (JArr (map JArr R)) = Inr table
      \<and> map tagName (childNodes table) = [''thead'', ''tbody'']
      \<and> header_cells table = []
      \<and> length (body_rows table) = length R
      \<and> map (map (to_string P)) R = map (map Inr) (row_texts table)"
    by (rule exI [of _ "table_of [] ts"]) (simp add: t' table_of_parts table_of_texts lts eq)
qed

theorem makeTable_empty_inputs_witness:
  "(\<exists>table. makeTable nat_platform (JArr (map JStr teams_headers)) (JArr []) = Inr table
      \<and> map tagName (childNodes table) = [''thead'', ''tbody'']
      \<and> header_texts table = [''#'', ''Team'', ''PPG'', ''Total Pts'', ''GP'']
      \<and> body_rows table = [])
   \<and> (\<exists>table. makeTable nat_platform (JArr []) (JArr (map JArr [example_row])) = Inr table
      \<and> header_cells table = []
      \<and> row_texts table = [[''1'', ''A. Example'', ''XYZ'', ''23.4 ppg'', ''812 pts'', ''35 gp'']])"
proof (rule conjI)
  have sc: "\<forall>r \<in> set [example_row]. \<forall>v \<in> set r. scalar v"
    by (simp add: example_row_def)
  note th = makeTable_empty_inputs [OF sc, of nat_platform teams_headers]
  from th [THEN conjunct1] obtain table where
    t: "makeTable nat_platform (JArr (map JStr teams_headers)) (JArr []) = Inr table"
    and tg: "map tagName (childNodes table) = [''thead'', ''tbody'']"
    and ht: "header_texts table = teams_headers"
    and br: "body_rows table = []"
    by (elim exE conjE)
  show "\<exists>table. makeTable nat_platform (JArr (map JStr teams_headers)) (JArr []) = Inr table
      \<and> map tagName (childNodes table) = [''thead'', ''tbody'']
      \<and> header_texts table = [''#'', ''Team'', ''PPG'', ''Total Pts'', ''GP'']
      \<and> body_rows table = []"
  proof (rule exI [of _ table], intro conjI)
    show "header_texts table = [''#'', ''Team'', ''PPG'', ''Total Pts'', ''GP'']"
      using ht by (simp add: teams_headers_def)
  qed (rule t tg br)+
  from th [THEN conjunct2] obtain table' where
    t': "makeTable nat_platform (JArr []) (JArr (map JArr [example_row])) = Inr table'"
    and hc: "header_cells table' = []"
    and rt: "map (map (to_string nat_platform)) [example_row] = map (map Inr) (row_texts table')"
    by (elim exE conjE)
  from rt have rt': "row_texts table' = [[''1'', ''A. Example'', ''XYZ'', ''23.4 ppg'', ''812 pts'', ''35 gp'']]"
    by (auto simp add: example_row_def nat_platform_def decimal.simps Cons_eq_map_conv)
  show "\<exists>table. makeTable nat_platform (JArr []) (JArr (map JArr [example_row])) = Inr table
      \<and> header_cells table = []
      \<and> row_texts table = [[''1'', ''A. Example'', ''XYZ'', ''23.4 ppg'', ''812 pts'', ''35 gp'']]"
    by (rule exI [of _ table'], intro conjI) (rule t' hc rt')+
qed


section \<open>Two runs of makeTable\<close>

lemma forget_set_style: "forget (set_style_at k v el) = set_style k v (forget el)"
  by (cases el) simp_all

lemma forget_appendChild: "forget (appendChild_at p c) = appendChild (forget p) (forget c)"
  by (cases p) simp_all

lemma forget_replace_text: "forget (fst (replace_text_at str el n)) = replace_text str (forget el)"
  by (cases el) simp_all

lemma header_cell_at_forget: "without_ids (header_cell_at P h n) = header_cell P h"
  by (cases "dom_string P h")
     (simp_all add: header_cell_at_def header_cell_def set_textContent_at_def set_textContent_def
        createElement_at_def createElement_def)

lemma body_cell_at_forget: "without_ids (body_cell_at P v n) = body_cell P v"
  by (cases "dom_string P v")
     (simp_all add: body_cell_at_def body_cell_def set_textContent_at_def set_textContent_def
        createElement_at_def createElement_def)

lemma append_each_at_forget:
  assumes build: "\<And>x n. without_ids (build_at x n) = build x"
  shows "without_ids (append_each_at build_at xs parent n) = append_each build xs (forget parent)"
proof (induction xs arbitrary: parent n)
  case Nil
  show ?case by simp
next
  case (Cons x xs)
  show ?case
  proof (cases "build_at x n")
    case (Inl e)
    with build [of x n] have "build x = Inl e" by simp
    with Inl show ?thesis by simp
  next
    case (Inr r)
    obtain child m where r: "r = (child, m)" by (cases r)
    with Inr build [of x n] have "build x = Inr (forget child)" by simp
    with Inr r show ?thesis by (simp add: Cons.IH forget_appendChild)
  qed
qed

lemma append_rows_at_forget:
  "without_ids (append_rows_at P rs tbody n) = append_rows P rs (forget tbody)"
proof (induction rs arbitrary: tbody n)
  case Nil
  show ?case by simp
next
  case (Cons row rest)
  show ?case
  proof (cases row)
    case (JArr cells)
    let ?run = "append_each_at (body_cell_at P) cells (ElementObj n ''tr'' None [] []) (Suc n)"
    have run: "without_ids ?run = append_each (body_cell P) cells (createElement ''tr'')"
      using append_each_at_forget [of "body_cell_at P" "body_cell P", OF body_cell_at_forget]
      by (simp add: createElement_def)
    show ?thesis
    proof (cases ?run)
      case (Inl e)
      with run have "append_each (body_cell P) cells (createElement ''tr'') = Inl e" by simp
      with Inl JArr show ?thesis by (simp add: createElement_at_def)
    next
      case (Inr r)
      obtain tr m where r: "r = (tr, m)" by (cases r)
      with Inr run have "append_each (body_cell P) cells (createElement ''tr'') = Inr (forget tr)"
        by simp
      with Inr r JArr show ?thesis
        by (simp add: createElement_at_def Cons.IH forget_appendChild)
    qed
  qed simp_all
qed

text \<open>Whatever the counter, a run returns the table of \<open>makeTable\<close>, or raises as it does.\<close>

lemma makeTable_at_forget: "without_ids (makeTable_at P H R n) = makeTable P H R"
proof (cases H)
  case (JArr hs)
  note H = this
  let ?run = "append_each_at (header_cell_at P) hs (ElementObj (Suc (Suc n)) ''tr'' None [] [])
                (Suc (Suc (Suc n)))"
  have run: "without_ids ?run = append_each (header_cell P) hs (createElement ''tr'')"
    using append_each_at_forget [of "header_cell_at P" "header_cell P", OF header_cell_at_forget]
    by (simp add: createElement_def)
  show ?thesis
  proof (cases ?run)
    case (Inl e)
    with run have "append_each (header_cell P) hs (createElement ''tr'') = Inl e" by simp
    with Inl JArr show ?thesis
      by (simp add: makeTable_at_def makeTable_def createElement_at_def Let_def)
  next
    case (Inr r)
    note run_r = this
    obtain headRow m where r: "r = (headRow, m)" by (cases r)
    with Inr run have h: "append_each (header_cell P) hs (createElement ''tr'') = Inr (forget headRow)"
      by simp
    show ?thesis
    proof (cases R)
      case (JArr rs)
      let ?rows = "append_rows_at P rs (ElementObj m ''tbody'' None [] []) (Suc m)"
      have rows: "without_ids ?rows = append_rows P rs (createElement ''tbody'')"
        by (simp add: append_rows_at_forget createElement_def)
      show ?thesis
      proof (cases ?rows)
        case (Inl e)
        with rows have "append_rows P rs (createElement ''tbody'') = Inl e" by simp
        with Inl run_r r h JArr H show ?thesis
          by (simp add: makeTable_at_def makeTable_def createElement_at_def Let_def)
      next
        case (Inr q)
        obtain tbody k where q: "q = (tbody, k)" by (cases q)
        with Inr rows have "append_rows P rs (createElement ''tbody'') = Inr (forget tbody)" by simp
        with Inr q run_r r h JArr H show ?thesis
          by (simp add: makeTable_at_def makeTable_def createElement_at_def createElement_def Let_def)
      qed
    qed (use run_r r h H in
          \<open>simp_all add: makeTable_at_def makeTable_def createElement_at_def Let_def\<close>)
  qed
qed (simp_all add: makeTable_at_def makeTable_def createElement_at_def Let_def)

text \<open>
  C4. Two calls of \<open>makeTable\<close> with the same headers and the same rows, whatever
  identities the platform gives to the objects they create, have the same outcome once
  the identities are ignored: both raise, or both return a table, and then the two
  tables are the same, with the same header texts and the same texts in every row.
\<close>

theorem makeTable_deterministic:
  assumes "H1 = H2" and "R1 = R2"
  shows "without_ids (makeTable_at P H1 R1 n1) = without_ids (makeTable_at P H2 R2 n2)
       \<and> (\<forall>t1 m1 t2 m2.
            makeTable_at P H1 R1 n1 = Inr (t1, m1) \<and> makeTable_at P H2 R2 n2 = Inr (t2, m2) \<longrightarrow>
              forget t1 = forget t2
            \<and> header_texts (forget t1) = header_texts (forget t2)
            \<and> row_texts (forget t1) = row_texts (forget t2)
            \<and> makeTable P H1 R1 = Inr (forget t1))"
proof (intro conjI allI impI)
  show same: "without_ids (makeTable_at P H1 R1 n1) = without_ids (makeTable_at P H2 R2 n2)"
    using assms by (simp add: makeTable_at_forget)
  fix t1 m1 t2 m2
  assume runs: "makeTable_at P H1 R1 n1 = Inr (t1, m1) \<and> makeTable_at P H2 R2 n2 = Inr (t2, m2)"
  with same show eq: "forget t1 = forget t2" by simp
  then show "header_texts (forget t1) = header_texts (forget t2)"
    and "row_texts (forget t1) = row_texts (forget t2)"
    by simp_all
  from runs makeTable_at_forget [of P H1 R1 n1] show "makeTable P H1 R1 = Inr (forget t1)"
    by simp
qed

lemma first_run:
  "makeTable_at nat_platform (JArr [JStr ''#'']) (JArr [JArr [JNum 1]]) 0 =
     Inr (ElementObj 0 ''table'' None
            [(''borderCollapse'', ''collapse''), (''marginBottom'', ''12px''), (''fontSize'', ''0.9rem'')]
            [ElementObj 1 ''thead'' None []
               [ElementObj 2 ''tr'' None []
                  [ElementObj 3 ''th'' None
                     [(''borderBottom'', ''1px solid #ccc''), (''padding'', ''4px 6px''),
                      (''textAlign'', ''left'')]
                     [TextObj 4 ''#'']]],
             ElementObj 5 ''tbody'' None []
               [ElementObj 6 ''tr'' None []
                  [ElementObj 7 ''td'' None
                     [(''padding'', ''3px 6px''), (''borderBottom'', ''1px solid #eee'')]
                     [TextObj 8 ''1'']]]], 9)"
  by (simp add: makeTable_at_def createElement_at_def header_cell_at_def body_cell_at_def
      set_textContent_at_def nat_platform_def decimal.simps Let_def eval_nat_numeral)

lemma second_run:
  "makeTable_at nat_platform (JArr [JStr ''#'']) (JArr [JArr [JNum 1]]) 9 =
     Inr (ElementObj 9 ''table'' None
            [(''borderCollapse'', ''collapse''), (''marginBottom'', ''12px''), (''fontSize'', ''0.9rem'')]
            [ElementObj 10 ''thead'' None []
               [ElementObj 11 ''tr'' None []
                  [ElementObj 12 ''th'' None
                     [(''borderBottom'', ''1px solid #ccc''), (''padding'', ''4px 6px''),
                      (''textAlign'', ''left'')]
                     [TextObj 13 ''#'']]],
             ElementObj 14 ''tbody'' None []
               [ElementObj 15 ''tr'' None []
                  [ElementObj 16 ''td'' None
                     [(''padding'', ''3px 6px''), (''borderBottom'', ''1px solid #eee'')]
                     [TextObj 17 ''1'']]]], 18)"
  by (simp add: makeTable_at_def createElement_at_def header_cell_at_def body_cell_at_def
      set_textContent_at_def nat_platform_def decimal.simps Let_def eval_nat_numeral)

theorem makeTable_deterministic_witness:
  "\<exists>t1 m1 t2 m2.
     makeTable_at nat_platform (JArr [JStr ''#'']) (JArr [JArr [JNum 1]]) 0 = Inr (t1, m1)
   \<and> makeTable_at nat_platform (JArr [JStr ''#'']) (JArr [JArr [JNum 1]]) m1 = Inr (t2, m2)
   \<and> t1 \<noteq> t2
   \<and> forget t1 = forget t2
   \<and> header_texts (forget t1) = [''#'']
   \<and> row_texts (forget t2) = [[''1'']]"
proof -
  obtain t1 where r1: "makeTable_at nat_platform (JArr [JStr ''#'']) (JArr [JArr [JNum 1]]) 0 = Inr (t1, 9)"
    and i1: "t1 = ElementObj 0 ''table'' None
            [(''borderCollapse'', ''collapse''), (''marginBottom'', ''12px''), (''fontSize'', ''0.9rem'')]
            [ElementObj 1 ''thead'' None []
               [ElementObj 2 ''tr'' None []
                  [ElementObj 3 ''th'' None
                     [(''borderBottom'', ''1px solid #ccc''), (''padding'', ''4px 6px''),
                      (''textAlign'', ''left'')]
                     [TextObj 4 ''#'']]],
             ElementObj 5 ''tbody'' None []
               [ElementObj 6 ''tr'' None []
                  [ElementObj 7 ''td'' None
                     [(''padding'', ''3px 6px''), (''borderBottom'', ''1px solid #eee'')]
                     [TextObj 8 ''1'']]]]"
    using first_run by simp
  obtain t2 where r2: "makeTable_at nat_platform (JArr [JStr ''#'']) (JArr [JArr [JNum 1]]) 9 = Inr (t2, 18)"
    and i2: "\<exists>t a s c. t2 = ElementObj 9 t a s c"
    using second_run by simp
  from makeTable_deterministic [OF refl refl, of nat_platform "JArr [JStr ''#'']" "JArr [JArr [JNum 1]]" 0 9,
      THEN conjunct2, rule_format, OF conjI [OF r1 r2]]
  have same: "forget t1 = forget t2"
    and h: "header_texts (forget t1) = header_texts (forget t2)"
    and r: "row_texts (forget t1) = row_texts (forget t2)"
    by simp_all
  have ne: "t1 \<noteq> t2" using i1 i2 by auto
  have h1: "header_texts (forget t1) = [''#'']"
    by (simp add: i1 header_texts_def)
  have "row_texts (forget t1) = [[''1'']]"
    by (simp add: i1 row_texts_def)
  with r have r2': "row_texts (forget t2) = [[''1'']]" by simp
  show ?thesis
    by (intro exI [of _ t1] exI [of _ 9] exI [of _ t2] exI [of _ 18] conjI)
       (rule r1 r2 ne same h1 r2')+
qed

section \<open>Properties of the row callbacks\<close>

lemma ppg_row_rank:
  "ppg_row P p i = Inr y \<Longrightarrow> \<exists>rest. y = JArr (JNum (num_of_nat P (i + 1)) # rest)"
  by (auto simp add: ppg_row_def and_then_Inr)

lemma pts_row_rank:
  "pts_row P p i = Inr y \<Longrightarrow> \<exists>rest. y = JArr (JNum (num_of_nat P (i + 1)) # rest)"
  by (auto simp add: pts_row_def and_then_Inr)

lemma threes_row_rank:
  "threes_row P p i = Inr y \<Longrightarrow> \<exists>rest. y = JArr (JNum (num_of_nat P (i + 1)) # rest)"
  by (auto simp add: threes_row_def and_then_Inr)

lemma team_row_rank:
  "team_row P p i = Inr y \<Longrightarrow> \<exists>rest. y = JArr (JNum (num_of_nat P (i + 1)) # rest)"
  by (auto simp add: team_row_def and_then_Inr)

text \<open>
  The loop of \<^verbatim>\<open>map\<close>, started at index \<open>k\<close>: when every callback result starts with
  the rank of its index, result \<open>i\<close> starts with \<open>k + i + 1\<close>.
\<close>

lemma map_from_ranks:
  assumes "map_from f k xs = Inr rows"
    and "\<forall>x i y. f x i = Inr y \<longrightarrow> (\<exists>rest. y = JArr (JNum (num_of_nat P (i + 1)) # rest))"
  shows "\<exists>R. rows = map JArr R \<and> length R = length xs
           \<and> (\<forall>i < length xs. \<exists>rest. R ! i = JNum (num_of_nat P (k + i + 1)) # rest)"
  using assms
proof (induction xs arbitrary: k rows)
  case Nil
  then show ?case by simp
next
  case (Cons x xs)
  from Cons.prems(1) obtain y ys where y: "f x k = Inr y"
    and ys: "map_from f (Suc k) xs = Inr ys" and rows: "rows = y # ys"
    by (auto simp add: and_then_Inr)
  from Cons.prems(2) y obtain rest where rest: "y = JArr (JNum (num_of_nat P (k + 1)) # rest)"
    by blast
  from Cons.IH [OF ys Cons.prems(2)] obtain R where R: "ys = map JArr R" "length R = length xs"
    "\<forall>i < length xs. \<exists>rest. R ! i = JNum (num_of_nat P (Suc k + i + 1)) # rest"
    by blast
  let ?R = "(JNum (num_of_nat P (k + 1)) # rest) # R"
  have "rows = map JArr ?R" using rows rest R(1) by simp
  moreover have "length ?R = length (x # xs)" using R(2) by simp
  moreover have "\<forall>i < length (x # xs). \<exists>rest. ?R ! i = JNum (num_of_nat P (k + i + 1)) # rest"
  proof (intro allI impI)
    fix i assume "i < length (x # xs)"
    then show "\<exists>rest. ?R ! i = JNum (num_of_nat P (k + i + 1)) # rest"
      using R(3) by (cases i) auto
  qed
  ultimately show ?case by blast
qed


lemma makeTable_arrays_Inr:
  assumes "makeTable P (JArr H) (JArr (map JArr R)) = Inr table"
  obtains hs ts where "texts_of P H = Inr hs" "rows_texts_of P R = Inr ts" "table = table_of hs ts"
  using assms unfolding makeTable_arrays and_then_Inr by auto

text \<open>
  C9. In each of the four sections, the row built from element \<open>i\<close> (counted from 0) of
  the source array has the number \<open>i + 1\<close> as its first cell, and every table that
  \<open>makeTable\<close> returns for these rows shows it as the first text of body row \<open>i\<close>: the
  ranks read 1, 2, 3, ... down the table.
\<close>

theorem ranks_ascend:
  assumes rf: "row_of \<in> {ppg_row P, pts_row P, threes_row P, team_row P}"
    and rows: "array_map row_of leaders = Inr rows"
  shows "\<exists>xs R. leaders = JArr xs \<and> rows = JArr (map JArr R) \<and> length R = length xs
           \<and> (\<forall>i < length xs. \<exists>rest. R ! i = JNum (num_of_nat P (i + 1)) # rest)
           \<and> (\<forall>table. makeTable P (JArr headers) rows = Inr table \<longrightarrow>
                length (row_texts table) = length xs
                \<and> (\<forall>i < length xs. \<exists>rest.
                      row_texts table ! i = num_to_string P (num_of_nat P (i + 1)) # rest))"
proof -
  from rows obtain xs ys where xs: "leaders = JArr xs" and ys: "map_from row_of 0 xs = Inr ys"
    and r: "rows = JArr ys"
    by (cases leaders) (auto simp add: and_then_Inr)
  have "\<forall>x i y. row_of x i = Inr y \<longrightarrow> (\<exists>rest. y = JArr (JNum (num_of_nat P (i + 1)) # rest))"
    using rf ppg_row_rank pts_row_rank threes_row_rank team_row_rank by blast
  from map_from_ranks [OF ys this] obtain R where R: "ys = map JArr R" "length R = length xs"
    "\<forall>i < length xs. \<exists>rest. R ! i = JNum (num_of_nat P (i + 1)) # rest"
    by auto
  have shown: "\<forall>table. makeTable P (JArr headers) rows = Inr table \<longrightarrow>
                length (row_texts table) = length xs
                \<and> (\<forall>i < length xs. \<exists>rest.
                      row_texts table ! i = num_to_string P (num_of_nat P (i + 1)) # rest)"
  proof (intro allI impI)
    fix table assume "makeTable P (JArr headers) rows = Inr table"
    then have "makeTable P (JArr headers) (JArr (map JArr R)) = Inr table"
      by (simp add: r R(1))
    from makeTable_arrays_Inr [OF this] obtain hs ts where
      ts: "rows_texts_of P R = Inr ts" and t: "table = table_of hs ts"
      by blast
    from ts have m: "map (texts_of P) R = map Inr ts"
      by (simp add: rows_texts_of_Inr)
    then have lts: "length ts = length R"
      by (metis length_map)
    have "\<exists>rest. ts ! i = num_to_string P (num_of_nat P (i + 1)) # rest" if i: "i < length xs" for i
    proof -
      from R(3) i obtain rest where ri: "R ! i = JNum (num_of_nat P (i + 1)) # rest" by blast
      from m have "map (texts_of P) R ! i = map Inr ts ! i" by simp
      with i R(2) lts have "texts_of P (R ! i) = Inr (ts ! i)" by simp
      with ri have "\<exists>v. num_to_string P (num_of_nat P (i + 1)) # v = ts ! i"
        by (auto simp add: and_then_Inr)
      then obtain v where "num_to_string P (num_of_nat P (i + 1)) # v = ts ! i" ..
      then have "ts ! i = num_to_string P (num_of_nat P (i + 1)) # v" by (rule sym)
      then show ?thesis ..
    qed
    then show "length (row_texts table) = length xs
                \<and> (\<forall>i < length xs. \<exists>rest.
                      row_texts table ! i = num_to_string P (num_of_nat P (i + 1)) # rest)"
      by (simp add: t table_of_texts lts R(2))
  qed
  show ?thesis
    by (intro exI [of _ xs] exI [of _ R] conjI) (rule xs R(2) R(3) shown | simp add: r R(1))+
qed

lemma pts_rows_example:
  "array_map (pts_row nat_platform) (JArr [example_record, record_without_ppg]) =
     Inr (JArr [JArr [JNum 1, JStr ''A. Example'', JStr ''XYZ'', JStr ''812 pts'', JStr ''35 gp''],
                JArr [JNum 2, JStr ''B. Example'', JStr ''XYZ'', JStr ''640 pts'', JStr ''32 gp'']])"
  by (simp add: pts_row_def example_record_def record_without_ppg_def own_prop_def
      nat_platform_def decimal.simps)

theorem ranks_ascend_witness:
  "array_map (pts_row nat_platform) (JArr [example_record, record_without_ppg]) =
     Inr (JArr [JArr [JNum 1, JStr ''A. Example'', JStr ''XYZ'', JStr ''812 pts'', JStr ''35 gp''],
                JArr [JNum 2, JStr ''B. Example'', JStr ''XYZ'', JStr ''640 pts'', JStr ''32 gp'']])
   \<and> (\<exists>table. makeTable nat_platform (JArr (map JStr pts_headers))
         (JArr [JArr [JNum 1, JStr ''A. Example'', JStr ''XYZ'', JStr ''812 pts'', JStr ''35 gp''],
                JArr [JNum 2, JStr ''B. Example'', JStr ''XYZ'', JStr ''640 pts'', JStr ''32 gp'']]) = Inr table
         \<and> (\<exists>rest. row_texts table ! 0 = ''1'' # rest)
         \<and> (\<exists>rest. row_texts table ! 1 = ''2'' # rest))"
proof -
  let ?R = "[[JNum 1, JStr ''A. Example'', JStr ''XYZ'', JStr ''812 pts'', JStr ''35 gp''],
             [JNum 2, JStr ''B. Example'', JStr ''XYZ'', JStr ''640 pts'', JStr ''32 gp'']] :: nat jsval list list"
  have mem: "pts_row nat_platform \<in>
      {ppg_row nat_platform, pts_row nat_platform, threes_row nat_platform, team_row nat_platform}"
    by simp
  have sc: "\<forall>r \<in> set ?R. \<forall>v \<in> set r. scalar v" by simp
  from makeTable_scalars [OF sc, of nat_platform pts_headers] obtain ts where
    "makeTable nat_platform (JArr (map JStr pts_headers)) (JArr (map JArr ?R)) = Inr (table_of pts_headers ts)"
    by blast
  then have t: "makeTable nat_platform (JArr (map JStr pts_headers))
         (JArr [JArr [JNum 1, JStr ''A. Example'', JStr ''XYZ'', JStr ''812 pts'', JStr ''35 gp''],
                JArr [JNum 2, JStr ''B. Example'', JStr ''XYZ'', JStr ''640 pts'', JStr ''32 gp'']])
          = Inr (table_of pts_headers ts)"
    by simp
  from ranks_ascend [OF mem pts_rows_example, of "map JStr pts_headers"]
  obtain xs R where l: "JArr [example_record, record_without_ppg] = JArr xs"
    and all: "\<forall>table. makeTable nat_platform (JArr (map JStr pts_headers))
         (JArr [JArr [JNum 1, JStr ''A. Example'', JStr ''XYZ'', JStr ''812 pts'', JStr ''35 gp''],
                JArr [JNum 2, JStr ''B. Example'', JStr ''XYZ'', JStr ''640 pts'', JStr ''32 gp'']]) = Inr table \<longrightarrow>
                length (row_texts table) = length xs
                \<and> (\<forall>i < length xs. \<exists>rest.
                      row_texts table ! i = num_to_string nat_platform (num_of_nat nat_platform (i + 1)) # rest)"
    by (elim exE conjE)
  from l have len: "length xs = 2" by auto
  from all [rule_format, OF t] have r: "\<forall>i < length xs. \<exists>rest.
      row_texts (table_of pts_headers ts) ! i =
        num_to_string nat_platform (num_of_nat nat_platform (i + 1)) # rest"
    by (rule conjunct2)
  from r len have "\<exists>rest. row_texts (table_of pts_headers ts) ! 0 =
      num_to_string nat_platform (num_of_nat nat_platform (0 + 1)) # rest"
    by simp
  then have a: "\<exists>rest. row_texts (table_of pts_headers ts) ! 0 = ''1'' # rest"
    by (simp add: nat_platform_def decimal.simps)
  from r len have "\<exists>rest. row_texts (table_of pts_headers ts) ! 1 =
      num_to_string nat_platform (num_of_nat nat_platform (1 + 1)) # rest"
    by simp
  then have b: "\<exists>rest. row_texts (table_of pts_headers ts) ! 1 = ''2'' # rest"
    by (simp add: nat_platform_def decimal.simps)
  show ?thesis
    by (intro conjI exI [of _ "table_of pts_headers ts"]) (rule pts_rows_example t a b)+
qed


section \<open>Lookups and writes in the page\<close>

text \<open>A write to the element with id \<open>i\<close> that only changes its children is seen by the next lookup of \<open>i\<close>.\<close>

lemma find_same:
  "getElementById i d = Some (Element t a s c) \<Longrightarrow> \<forall>t a s c. g (Element t a s c) = Element t a s (h c)
     \<Longrightarrow> getElementById i (update_element i g d) = Some (Element t a s (h c))"
  "find_in i ds = Some (Element t a s c) \<Longrightarrow> \<forall>t a s c. g (Element t a s c) = Element t a s (h c)
     \<Longrightarrow> find_in i (update_in i g ds) = Some (Element t a s (h c))"
  by (induction i d and i ds rule: getElementById_find_in.induct)
     (auto split: option.splits if_splits)

lemma find_is_element:
  "getElementById i d = Some e \<Longrightarrow> \<exists>t s c. e = Element t (Some i) s c"
  "find_in i ds = Some e \<Longrightarrow> \<exists>t s c. e = Element t (Some i) s c"
  by (induction i d and i ds rule: getElementById_find_in.induct)
     (auto split: option.splits if_splits)

lemma update_absent:
  "getElementById i d = None \<Longrightarrow> update_element i g d = d"
  "find_in i ds = None \<Longrightarrow> update_in i g ds = ds"
  by (induction i d and i ds rule: getElementById_find_in.induct)
     (auto split: option.splits if_splits)

text \<open>
  A write to the element with id \<open>i\<close> does not change what a lookup of another id \<open>j\<close>
  returns, when neither element lies inside the other and the new children hold no
  element with id \<open>j\<close>.
\<close>

lemma find_other:
  "getElementById i d = Some (Element t a s c) \<Longrightarrow> i \<noteq> j
     \<Longrightarrow> \<forall>t a s c. g (Element t a s c) = Element t a s (h c)
     \<Longrightarrow> find_in j c = None \<Longrightarrow> find_in j (h c) = None
     \<Longrightarrow> \<forall>tj aj sj cj. getElementById j d = Some (Element tj aj sj cj) \<longrightarrow> find_in i cj = None
     \<Longrightarrow> getElementById j (update_element i g d) = getElementById j d"
  "find_in i ds = Some (Element t a s c) \<Longrightarrow> i \<noteq> j
     \<Longrightarrow> \<forall>t a s c. g (Element t a s c) = Element t a s (h c)
     \<Longrightarrow> find_in j c = None \<Longrightarrow> find_in j (h c) = None
     \<Longrightarrow> \<forall>tj aj sj cj. find_in j ds = Some (Element tj aj sj cj) \<longrightarrow> find_in i cj = None
     \<Longrightarrow> find_in j (update_in i g ds) = find_in j ds"
  by (induction i d and i ds rule: getElementById_find_in.induct)
     (auto split: option.splits if_splits)

section \<open>One section of the callback\<close>

lemma clear_innerHTML_children: "\<forall>t a s c. clear_innerHTML (Element t a s c) = Element t a s ((\<lambda>c. []) c)"
  by simp

lemma appendChild_children:
  "\<forall>t a s c. (\<lambda>el. appendChild el n) (Element t a s c) = Element t a s ((\<lambda>c. c @ [n]) c)"
  by simp

lemma render_section_present:
  assumes el: "getElementById region doc = Some (Element t a s c)"
    and rows: "array_map row_of leaders = Inr rows"
    and tab: "makeTable P (JArr (map JStr headers)) rows = Inr table"
  shows "render_section P region True headers row_of leaders doc =
           Inr (update_element region (\<lambda>el. appendChild el table)
                  (update_element region clear_innerHTML doc))"
    and "getElementById region (update_element region (\<lambda>el. appendChild el table)
                  (update_element region clear_innerHTML doc)) = Some (Element t a s [table])"
proof -
  show "render_section P region True headers row_of leaders doc =
           Inr (update_element region (\<lambda>el. appendChild el table)
                  (update_element region clear_innerHTML doc))"
    by (simp add: render_section_def throws_in_def rows tab)
  have "getElementById region (update_element region clear_innerHTML doc) = Some (Element t a s [])"
    using find_same(1) [OF el clear_innerHTML_children] by simp
  from find_same(1) [OF this appendChild_children]
  show "getElementById region (update_element region (\<lambda>el. appendChild el table)
                  (update_element region clear_innerHTML doc)) = Some (Element t a s [table])"
    by simp
qed


lemma append_rows_Inr:
  "append_rows P rs tbody = Inr tbody' \<Longrightarrow> \<exists>R. rs = map JArr R"
proof (induction rs arbitrary: tbody)
  case Nil
  then show ?case by simp
next
  case (Cons row rest)
  then obtain cells where row: "row = JArr cells"
    by (cases row) simp_all
  with Cons obtain R where "rest = map JArr R"
    by (auto simp add: and_then_Inr)
  with row have "row # rest = map JArr (cells # R)" by simp
  then show ?case by (rule exI)
qed

lemma makeTable_Inr:
  assumes "makeTable P H R = Inr table"
  shows "\<exists>hs rs. H = JArr hs \<and> R = JArr (map JArr rs)"
proof -
  from assms obtain hs where H: "H = JArr hs"
    by (cases H) (simp_all add: makeTable_def Let_def)
  from assms H obtain rs where R: "R = JArr rs"
    by (cases R) (simp_all add: makeTable_def Let_def and_then_Inr)
  from assms H R obtain tb tb' where "append_rows P rs tb = Inr tb'"
    by (auto simp add: makeTable_def Let_def and_then_Inr)
  from append_rows_Inr [OF this] H R show ?thesis by blast
qed

lemma find_in_header_cells: "find_in j (map th_of hs) = None"
  by (induction hs) (simp_all add: th_of_def)

lemma find_in_body_cells: "find_in j (map td_of strs) = None"
  by (induction strs) (simp_all add: td_of_def)

lemma find_in_table_rows: "find_in j (map tr_of ts) = None"
  by (induction ts) (simp_all add: tr_of_def find_in_body_cells)

lemma table_of_no_ids: "getElementById j (table_of hs ts) = None"
  by (simp add: table_of_def find_in_header_cells find_in_table_rows)

lemma makeTable_no_ids:
  assumes "makeTable P H R = Inr table"
  shows "getElementById j table = None"
proof -
  from makeTable_Inr [OF assms] obtain hs rs where "H = JArr hs" "R = JArr (map JArr rs)"
    by blast
  with assms have "makeTable P (JArr hs) (JArr (map JArr rs)) = Inr table"
    by simp
  from makeTable_arrays_Inr [OF this] obtain strs ts where "table = table_of strs ts"
    by blast
  then show ?thesis
    by (simp add: table_of_no_ids)
qed



section \<open>Independent regions\<close>

lemma holds_none_iff: "holds_none ids c \<longleftrightarrow> (\<forall>j \<in> set ids. find_in j c = None)"
  by (simp add: holds_none_def list_all_iff)

lemma separate_iff:
  "separate d \<longleftrightarrow>
     (\<forall>i \<in> set looked_up. \<forall>t a s c. getElementById i d = Some (Element t a s c) \<longrightarrow>
        (\<forall>j \<in> set looked_up. find_in j c = None))"
proof -
  have "(case getElementById i d of None \<Rightarrow> True
              | Some el \<Rightarrow> holds_none looked_up (childNodes el))
          \<longleftrightarrow> (\<forall>t a s c. getElementById i d = Some (Element t a s c) \<longrightarrow>
                 (\<forall>j \<in> set looked_up. find_in j c = None))" for i
  proof (cases "getElementById i d")
    case None
    then show ?thesis by simp
  next
    case (Some e)
    with find_is_element(1) obtain t s c where "e = Element t (Some i) s c" by blast
    with Some show ?thesis by (simp add: holds_none_iff)
  qed
  then show ?thesis
    unfolding separate_def list_all_iff by blast
qed

lemma separateD:
  "separate d \<Longrightarrow> i \<in> set looked_up \<Longrightarrow> getElementById i d = Some (Element t a s c)
     \<Longrightarrow> j \<in> set looked_up \<Longrightarrow> find_in j c = None"
  unfolding separate_iff by blast

lemma write_others:
  assumes sep: "separate d" and i: "i \<in> set looked_up"
    and g: "\<forall>t a s c. g (Element t a s c) = Element t a s (h c)"
    and h: "\<And>c j. (\<And>k. k \<in> set looked_up \<Longrightarrow> find_in k c = None) \<Longrightarrow> j \<in> set looked_up \<Longrightarrow> find_in j (h c) = None"
    and j: "j \<in> set looked_up" and ji: "j \<noteq> i"
  shows "getElementById j (update_element i g d) = getElementById j d"
proof (cases "getElementById i d")
  case None
  then show ?thesis by (simp add: update_absent(1))
next
  case (Some e)
  with find_is_element(1) obtain t s c where e: "getElementById i d = Some (Element t (Some i) s c)"
    by blast
  have c: "find_in k c = None" if "k \<in> set looked_up" for k
    using separateD [OF sep i e that] .
  have hc: "find_in j (h c) = None"
    using h [OF c j] .
  have inner: "\<forall>tj aj sj cj. getElementById j d = Some (Element tj aj sj cj) \<longrightarrow> find_in i cj = None"
  proof (intro allI impI)
    fix tj aj sj cj assume "getElementById j d = Some (Element tj aj sj cj)"
    from separateD [OF sep j this i] show "find_in i cj = None" .
  qed
  have ij: "i \<noteq> j" using ji by simp
  show ?thesis
    by (rule find_other(1) [OF e ij g c [OF j] hc inner])
qed

lemma write_separate:
  assumes sep: "separate d" and i: "i \<in> set looked_up"
    and g: "\<forall>t a s c. g (Element t a s c) = Element t a s (h c)"
    and h: "\<And>c j. (\<And>k. k \<in> set looked_up \<Longrightarrow> find_in k c = None) \<Longrightarrow> j \<in> set looked_up \<Longrightarrow> find_in j (h c) = None"
  shows "separate (update_element i g d)"
  unfolding separate_iff
proof (intro ballI allI impI)
  fix k t a s c j
  assume k: "k \<in> set looked_up" and j: "j \<in> set looked_up"
    and el: "getElementById k (update_element i g d) = Some (Element t a s c)"
  show "find_in j c = None"
  proof (cases "k = i")
    case False
    have "getElementById k (update_element i g d) = getElementById k d"
      by (rule write_others [OF sep i g h k False])
    with el have "getElementById k d = Some (Element t a s c)" by simp
    from separateD [OF sep k this j] show ?thesis .
  next
    case True
    show ?thesis
    proof (cases "getElementById i d")
      case None
      then have "update_element i g d = d" by (rule update_absent(1))
      with el True None show ?thesis by simp
    next
      case (Some e)
      with find_is_element(1) obtain t' s' c' where e: "getElementById i d = Some (Element t' (Some i) s' c')"
        by blast
      have c': "find_in k c' = None" if "k \<in> set looked_up" for k
        using separateD [OF sep i e that] .
      have "getElementById i (update_element i g d) = Some (Element t' (Some i) s' (h c'))"
        by (rule find_same(1) [OF e g])
      with el True have "c = h c'" by simp
      with h [OF c' j] show ?thesis by simp
    qed
  qed
qed

lemma find_in_append:
  "find_in j (c @ ds) = (case find_in j c of Some e \<Rightarrow> Some e | None \<Rightarrow> find_in j ds)"
  by (induction c) (simp_all split: option.splits)

lemma render_section_Inr:
  assumes "render_section P r pres hs f xs d = Inr d'"
  shows "(\<not> pres \<and> d' = d) \<or>
         (pres \<and> (\<exists>rows table. array_map f xs = Inr rows
            \<and> makeTable P (JArr (map JStr hs)) rows = Inr table
            \<and> d' = update_element r (\<lambda>el. appendChild el table) (update_element r clear_innerHTML d)))"
proof (cases pres)
  case False
  with assms show ?thesis by (simp add: render_section_def)
next
  case True
  with assms obtain rows where rows: "array_map f xs = Inr rows"
    by (cases "array_map f xs") (simp_all add: render_section_def throws_in_def)
  with True assms obtain table where tab: "makeTable P (JArr (map JStr hs)) rows = Inr table"
    by (cases "makeTable P (JArr (map JStr hs)) rows") (simp_all add: render_section_def throws_in_def)
  with True assms rows
  have "d' = update_element r (\<lambda>el. appendChild el table) (update_element r clear_innerHTML d)"
    by (simp add: render_section_def throws_in_def)
  with True rows tab show ?thesis by blast
qed

lemma clear_separate:
  assumes sep: "separate d" and r: "r \<in> set looked_up"
  shows "separate (update_element r clear_innerHTML d)"
    and "j \<in> set looked_up \<Longrightarrow> j \<noteq> r \<Longrightarrow>
           getElementById j (update_element r clear_innerHTML d) = getElementById j d"
proof -
  have h: "\<And>c j. (\<And>k. k \<in> set looked_up \<Longrightarrow> find_in k c = None) \<Longrightarrow> j \<in> set looked_up
             \<Longrightarrow> find_in j ((\<lambda>c. []) c) = None"
    by simp
  show "separate (update_element r clear_innerHTML d)"
    by (rule write_separate [OF sep r clear_innerHTML_children h])
  show "j \<in> set looked_up \<Longrightarrow> j \<noteq> r \<Longrightarrow>
           getElementById j (update_element r clear_innerHTML d) = getElementById j d"
    by (rule write_others [OF sep r clear_innerHTML_children h])
qed

lemma append_table_separate:
  assumes sep: "separate d" and r: "r \<in> set looked_up"
    and tab: "makeTable P H R = Inr table"
  shows "separate (update_element r (\<lambda>el. appendChild el table) d)"
    and "j \<in> set looked_up \<Longrightarrow> j \<noteq> r \<Longrightarrow>
           getElementById j (update_element r (\<lambda>el. appendChild el table) d) = getElementById j d"
proof -
  have h: "\<And>c j. (\<And>k. k \<in> set looked_up \<Longrightarrow> find_in k c = None) \<Longrightarrow> j \<in> set looked_up
             \<Longrightarrow> find_in j ((\<lambda>c. c @ [table]) c) = None"
    by (simp add: find_in_append makeTable_no_ids [OF tab])
  show "separate (update_element r (\<lambda>el. appendChild el table) d)"
    by (rule write_separate [OF sep r appendChild_children h])
  show "j \<in> set looked_up \<Longrightarrow> j \<noteq> r \<Longrightarrow>
           getElementById j (update_element r (\<lambda>el. appendChild el table) d) = getElementById j d"
    by (rule write_others [OF sep r appendChild_children h])
qed

lemma render_section_separate:
  assumes sep: "separate d" and r: "r \<in> set looked_up"
    and run: "render_section P r pres hs f xs d = Inr d'"
  shows "separate d'"
    and "j \<in> set looked_up \<Longrightarrow> j \<noteq> r \<Longrightarrow> getElementById j d' = getElementById j d"
proof -
  from render_section_Inr [OF run]
  consider "d' = d"
    | rows table where "makeTable P (JArr (map JStr hs)) rows = Inr table"
        "d' = update_element r (\<lambda>el. appendChild el table) (update_element r clear_innerHTML d)"
    by blast
  then have "separate d' \<and> (j \<in> set looked_up \<longrightarrow> j \<noteq> r \<longrightarrow> getElementById j d' = getElementById j d)"
  proof cases
    case 1
    with sep show ?thesis by simp
  next
    case 2
    note s1 = clear_separate(1) [OF sep r]
    have "separate d'"
      unfolding 2(2) by (rule append_table_separate(1) [OF s1 r 2(1)])
    moreover have "getElementById j d' = getElementById j d" if "j \<in> set looked_up" "j \<noteq> r"
      unfolding 2(2)
      using append_table_separate(2) [OF s1 r 2(1) that] clear_separate(2) [OF sep r that]
      by simp
    ultimately show ?thesis by simp
  qed
  then show "separate d'"
    and "j \<in> set looked_up \<Longrightarrow> j \<noteq> r \<Longrightarrow> getElementById j d' = getElementById j d"
    by simp_all
qed

lemma render_section_region:
  assumes el: "getElementById r d = Some (Element t a s c)"
    and run: "render_section P r True hs f xs d = Inr d'"
  shows "\<exists>rows table. array_map f xs = Inr rows
           \<and> makeTable P (JArr (map JStr hs)) rows = Inr table
           \<and> getElementById r d' = Some (Element t a s [table])"
proof -
  from render_section_Inr [OF run] obtain rows table where
    rows: "array_map f xs = Inr rows" and tab: "makeTable P (JArr (map JStr hs)) rows = Inr table"
    and d': "d' = update_element r (\<lambda>el. appendChild el table) (update_element r clear_innerHTML d)"
    by blast
  from render_section_present(2) [OF el rows tab] d' rows tab show ?thesis by blast
qed

section \<open>The callback as a whole\<close>

lemma throws_in_Inr: "throws_in d r = Inr x \<longleftrightarrow> r = Inr x"
  by (cases r) (simp_all add: throws_in_def)

lemma replace_text_any:
  "\<forall>t a s c. replace_text str (Element t a s c) =
     Element t a s ((\<lambda>c. if str = [] then [] else [Text str]) c)"
  by simp

lemma update_timestamp_Inr:
  assumes "update_timestamp P data d = Inr d1"
  shows "d1 = d \<or> (\<exists>str. d1 = update_element ''leaders-updated'' (replace_text str) d)"
proof (cases "getElementById ''leaders-updated'' d")
  case None
  with assms show ?thesis by (simp add: update_timestamp_def)
next
  case (Some e)
  with assms obtain v where v: "get_prop data ''generated_at'' = Inr v"
    by (cases "get_prop data ''generated_at''") (simp_all add: update_timestamp_def throws_in_def)
  show ?thesis
  proof (cases "truthy P v")
    case False
    with assms Some v show ?thesis by (simp add: update_timestamp_def throws_in_def)
  next
    case True
    with assms Some v obtain str where "dom_string P v = Inr str"
      and "d1 = update_element ''leaders-updated'' (replace_text str) d"
      by (cases "dom_string P v") (simp_all add: update_timestamp_def throws_in_def)
    then show ?thesis by blast
  qed
qed

lemma update_timestamp_separate:
  assumes sep: "separate d" and run: "update_timestamp P data d = Inr d1"
  shows "separate d1"
    and "j \<in> set looked_up \<Longrightarrow> j \<noteq> ''leaders-updated'' \<Longrightarrow> getElementById j d1 = getElementById j d"
proof -
  have u: "''leaders-updated'' \<in> set looked_up" by (simp add: looked_up_def)
  have h: "\<And>c j. (\<And>k. k \<in> set looked_up \<Longrightarrow> find_in k c = None) \<Longrightarrow> j \<in> set looked_up
             \<Longrightarrow> find_in j ((\<lambda>c. if str = [] then [] else [Text str]) c) = None" for str :: string
    by simp
  from update_timestamp_Inr [OF run]
  consider "d1 = d" | str where "d1 = update_element ''leaders-updated'' (replace_text str) d"
    by blast
  then have "separate d1 \<and> (j \<in> set looked_up \<longrightarrow> j \<noteq> ''leaders-updated'' \<longrightarrow> getElementById j d1 = getElementById j d)"
  proof cases
    case 1
    with sep show ?thesis by simp
  next
    case 2
    have "separate d1"
      unfolding 2 by (rule write_separate [OF sep u replace_text_any h])
    moreover have "getElementById j d1 = getElementById j d" if "j \<in> set looked_up" "j \<noteq> ''leaders-updated''"
      unfolding 2 by (rule write_others [OF sep u replace_text_any h that])
    ultimately show ?thesis by simp
  qed
  then show "separate d1"
    and "j \<in> set looked_up \<Longrightarrow> j \<noteq> ''leaders-updated'' \<Longrightarrow> getElementById j d1 = getElementById j d"
    by simp_all
qed

lemma on_data_Inr:
  assumes "on_data P data doc0 = Inr doc'"
  obtains doc1 ppg pts threes teamOff d2 d3 d4 where
    "update_timestamp P data doc0 = Inr doc1"
    "leaders_of P data ''player_leaders'' ''points_per_game'' = Inr ppg"
    "leaders_of P data ''player_leaders'' ''points_total'' = Inr pts"
    "leaders_of P data ''player_leaders'' ''three_pointers_made'' = Inr threes"
    "leaders_of P data ''team_leaders'' ''offense_points_per_game'' = Inr teamOff"
    "render_section P ''leaders-ppg'' (getElementById ''leaders-ppg'' doc1 \<noteq> None)
       ppg_headers (ppg_row P) ppg doc1 = Inr d2"
    "render_section P ''leaders-pts'' (getElementById ''leaders-pts'' doc1 \<noteq> None)
       pts_headers (pts_row P) pts d2 = Inr d3"
    "render_section P ''leaders-threes'' (getElementById ''leaders-threes'' doc1 \<noteq> None)
       threes_headers (threes_row P) threes d3 = Inr d4"
    "render_section P ''leaders-teams'' (getElementById ''leaders-teams'' doc1 \<noteq> None)
       teams_headers (team_row P) teamOff d4 = Inr doc'"
  using assms unfolding on_data_def Let_def and_then_Inr throws_in_Inr by blast

lemma section_step:
  assumes sep: "separate d" and r: "r \<in> set looked_up"
    and run: "render_section P r (getElementById r d \<noteq> None) hs f xs d = Inr d'"
  shows "separate d'"
    and "\<And>j. j \<in> set looked_up \<Longrightarrow> j \<noteq> r \<Longrightarrow> getElementById j d' = getElementById j d"
    and "\<And>t a s c. getElementById r d = Some (Element t a s c) \<Longrightarrow>
           \<exists>rows table. array_map f xs = Inr rows
             \<and> makeTable P (JArr (map JStr hs)) rows = Inr table
             \<and> getElementById r d' = Some (Element t a s [table])"
proof -
  show "separate d'"
    by (rule render_section_separate(1) [OF sep r run])
  show "\<And>j. j \<in> set looked_up \<Longrightarrow> j \<noteq> r \<Longrightarrow> getElementById j d' = getElementById j d"
    by (rule render_section_separate(2) [OF sep r run])
  fix t a s c assume el: "getElementById r d = Some (Element t a s c)"
  with run have "render_section P r True hs f xs d = Inr d'" by simp
  from render_section_region [OF el this]
  show "\<exists>rows table. array_map f xs = Inr rows
             \<and> makeTable P (JArr (map JStr hs)) rows = Inr table
             \<and> getElementById r d' = Some (Element t a s [table])" .
qed

lemma looked_up_mem:
  "''leaders-updated'' \<in> set looked_up" "''leaders-ppg'' \<in> set looked_up"
  "''leaders-pts'' \<in> set looked_up" "''leaders-threes'' \<in> set looked_up"
  "''leaders-teams'' \<in> set looked_up"
  by (simp_all add: looked_up_def)

lemma separate_example_page: "separate example_page"
  by (simp add: separate_def looked_up_def holds_none_def example_page_def)

lemma example_feed_leaders:
  "leaders_of nat_platform example_feed ''player_leaders'' ''points_per_game'' = Inr (JArr [example_record])"
  "leaders_of nat_platform example_feed ''player_leaders'' ''points_total'' = Inr (JArr [])"
  "leaders_of nat_platform example_feed ''player_leaders'' ''three_pointers_made'' = Inr (JArr [])"
  "leaders_of nat_platform example_feed ''team_leaders'' ''offense_points_per_game'' = Inr (JArr [])"
  by (simp_all add: leaders_of_def example_feed_def own_prop_def)

lemma example_ppg_rows:
  "array_map (ppg_row nat_platform) (JArr [example_record]) =
     Inr (JArr (map JArr [[JNum 1, JStr ''A. Example'', JStr ''XYZ'', JStr ''23.0 ppg'', JStr ''812 pts'', JStr ''35 gp'']]))"
  by (simp add: ppg_row_def example_record_def own_prop_def nat_platform_def decimal.simps)

lemma on_data_InrI:
  assumes "update_timestamp P data doc0 = Inr doc1"
    "leaders_of P data ''player_leaders'' ''points_per_game'' = Inr ppg"
    "leaders_of P data ''player_leaders'' ''points_total'' = Inr pts"
    "leaders_of P data ''player_leaders'' ''three_pointers_made'' = Inr threes"
    "leaders_of P data ''team_leaders'' ''offense_points_per_game'' = Inr teamOff"
    "render_section P ''leaders-ppg'' (getElementById ''leaders-ppg'' doc1 \<noteq> None)
       ppg_headers (ppg_row P) ppg doc1 = Inr d2"
    "render_section P ''leaders-pts'' (getElementById ''leaders-pts'' doc1 \<noteq> None)
       pts_headers (pts_row P) pts d2 = Inr d3"
    "render_section P ''leaders-threes'' (getElementById ''leaders-threes'' doc1 \<noteq> None)
       threes_headers (threes_row P) threes d3 = Inr d4"
    "render_section P ''leaders-teams'' (getElementById ''leaders-teams'' doc1 \<noteq> None)
       teams_headers (team_row P) teamOff d4 = Inr doc'"
  shows "on_data P data doc0 = Inr doc'"
  unfolding on_data_def Let_def and_then_Inr throws_in_Inr using assms by blast

lemma example_feed_timestamp: "\<exists>d1. update_timestamp nat_platform example_feed d = Inr d1"
  by (cases "getElementById ''leaders-updated'' d")
     (simp_all add: update_timestamp_def throws_in_def example_feed_def own_prop_def)

lemma render_section_completes:
  assumes "array_map f xs = Inr (JArr (map JArr R))" and "rows_texts_of P R = Inr ts"
  shows "\<exists>d'. render_section P r pres hs f xs d = Inr d'"
  using assms by (simp add: render_section_def throws_in_def makeTable_arrays texts_of_strings)

lemma example_ppg_texts:
  "rows_texts_of nat_platform
     [[JNum 1, JStr ''A. Example'', JStr ''XYZ'', JStr ''23.0 ppg'', JStr ''812 pts'', JStr ''35 gp'']] =
   Inr [[''1'', ''A. Example'', ''XYZ'', ''23.0 ppg'', ''812 pts'', ''35 gp'']]"
  by (simp add: nat_platform_def decimal.simps)

lemma no_rows_texts: "rows_texts_of P [] = Inr []"
  by simp

lemma array_map_empty: "array_map f (JArr []) = Inr (JArr (map JArr []))"
  by simp

lemma example_run: "\<exists>doc'. on_data nat_platform example_feed example_page = Inr doc'"
proof -
  have "\<exists>doc1. update_timestamp nat_platform example_feed example_page = Inr doc1"
    by (rule example_feed_timestamp)
  then obtain doc1 where ts: "update_timestamp nat_platform example_feed example_page = Inr doc1"
    by blast
  obtain d2 where r1: "render_section nat_platform ''leaders-ppg'' (getElementById ''leaders-ppg'' doc1 \<noteq> None)
       ppg_headers (ppg_row nat_platform) (JArr [example_record]) doc1 = Inr d2"
    using render_section_completes [OF example_ppg_rows example_ppg_texts] by blast
  obtain d3 where r2: "render_section nat_platform ''leaders-pts'' (getElementById ''leaders-pts'' doc1 \<noteq> None)
       pts_headers (pts_row nat_platform) (JArr []) d2 = Inr d3"
    using render_section_completes [OF array_map_empty no_rows_texts] by blast
  obtain d4 where r3: "render_section nat_platform ''leaders-threes'' (getElementById ''leaders-threes'' doc1 \<noteq> None)
       threes_headers (threes_row nat_platform) (JArr []) d3 = Inr d4"
    using render_section_completes [OF array_map_empty no_rows_texts] by blast
  obtain d5 where r4: "render_section nat_platform ''leaders-teams'' (getElementById ''leaders-teams'' doc1 \<noteq> None)
       teams_headers (team_row nat_platform) (JArr []) d4 = Inr d5"
    using render_section_completes [OF array_map_empty no_rows_texts] by blast
  from on_data_InrI [OF ts example_feed_leaders r1 r2 r3 r4] show ?thesis by blast
qed

lemma bad_feed_leaders:
  "leaders_of nat_platform bad_feed ''player_leaders'' ''points_per_game'' = Inr (JArr [record_without_ppg])"
  "leaders_of nat_platform bad_feed ''player_leaders'' ''points_total'' = Inr (JArr [])"
  "leaders_of nat_platform bad_feed ''player_leaders'' ''three_pointers_made'' = Inr (JArr [])"
  "leaders_of nat_platform bad_feed ''team_leaders'' ''offense_points_per_game'' = Inr (JArr [])"
  by (simp_all add: leaders_of_def bad_feed_def own_prop_def)

lemma bad_feed_timestamp: "update_timestamp nat_platform bad_feed doc = Inr doc"
  by (cases "getElementById ''leaders-updated'' doc")
     (simp_all add: update_timestamp_def bad_feed_def own_prop_def throws_in_def)

lemma record_without_ppg_rows:
  "ppg_row nat_platform record_without_ppg i = Inl TypeError"
  "team_row nat_platform record_without_ppg i = Inl TypeError"
  "array_map (ppg_row nat_platform) (JArr [record_without_ppg]) = Inl TypeError"
  by (simp_all add: ppg_row_def team_row_def record_without_ppg_def own_prop_def)

lemma bad_feed_throws:
  assumes "getElementById ''leaders-ppg'' doc = Some e"
  shows "on_data nat_platform bad_feed doc =
           Inl (TypeError, update_element ''leaders-ppg'' clear_innerHTML doc)"
proof -
  have "render_section nat_platform ''leaders-ppg'' True ppg_headers (ppg_row nat_platform)
          (JArr [record_without_ppg]) doc =
        Inl (TypeError, update_element ''leaders-ppg'' clear_innerHTML doc)"
    by (simp add: render_section_def throws_in_def record_without_ppg_rows(3) del: array_map.simps)
  then show ?thesis
    unfolding on_data_def Let_def
    by (simp add: bad_feed_timestamp bad_feed_leaders throws_in_def assms)
qed


section \<open>Records with missing keys\<close>

lemma flat_record_text:
  assumes "flat_record kvs"
  shows "\<exists>str. to_string P (own_prop kvs k) = Inr str \<and> (map_of kvs k = None \<longrightarrow> str = ''undefined'')"
proof (cases "map_of kvs k")
  case None
  then show ?thesis by (simp add: own_prop_def)
next
  case (Some v)
  then have "(k, v) \<in> set kvs" by (rule map_of_SomeD)
  with assms have "scalar v" by (auto simp add: flat_record_def list_all_iff)
  from scalar_text [OF this, of P] Some show ?thesis by (auto simp add: own_prop_def)
qed

lemma undefined_cell: "body_cell P JUndefined = Inr (td_of [])"
  by (simp add: body_cell_text)

text \<open>
  C7 (as amended). For a record that is a flat object of numbers and strings, a missing
  \<^verbatim>\<open>player\<close>, \<^verbatim>\<open>team\<close>, \<^verbatim>\<open>pts\<close>, \<^verbatim>\<open>gp\<close>, \<^verbatim>\<open>threes\<close> or \<^verbatim>\<open>pts_for\<close> raises no error: an
  interpolated cell reads \<^verbatim>\<open>undefined pts\<close> or \<^verbatim>\<open>undefined gp\<close>, and a cell that passes
  the value on holds \<^verbatim>\<open>undefined\<close>, which the table shows as an empty cell. The rows of
  total points and of three-pointers are built for every such record. The rows of
  points per game and of team offense are built when \<^verbatim>\<open>ppg\<close> is a number; when it is
  missing, or anything but a number, the call of \<^verbatim>\<open>toFixed\<close> raises a TypeError.
\<close>

theorem rows_of_incomplete_records:
  assumes flat: "flat_record kvs"
  shows "\<exists>pts gp pts_for.
           to_string P (own_prop kvs ''pts'') = Inr pts
         \<and> to_string P (own_prop kvs ''gp'') = Inr gp
         \<and> to_string P (own_prop kvs ''pts_for'') = Inr pts_for
         \<and> (map_of kvs ''pts'' = None \<longrightarrow> pts @ '' pts'' = ''undefined pts'')
         \<and> (map_of kvs ''gp'' = None \<longrightarrow> gp @ '' gp'' = ''undefined gp'')
         \<and> (map_of kvs ''pts_for'' = None \<longrightarrow> pts_for @ '' pts'' = ''undefined pts'')
         \<and> pts_row P (JObj kvs) i =
             Inr (JArr [JNum (num_of_nat P (i + 1)), own_prop kvs ''player'', own_prop kvs ''team'',
                        JStr (pts @ '' pts''), JStr (gp @ '' gp'')])
         \<and> threes_row P (JObj kvs) i =
             Inr (JArr [JNum (num_of_nat P (i + 1)), own_prop kvs ''player'', own_prop kvs ''team'',
                        own_prop kvs ''threes'', JStr (gp @ '' gp'')])
         \<and> (\<forall>x. own_prop kvs ''ppg'' = JNum x \<longrightarrow>
              ppg_row P (JObj kvs) i =
                Inr (JArr [JNum (num_of_nat P (i + 1)), own_prop kvs ''player'', own_prop kvs ''team'',
                           JStr (num_to_fixed P 1 x @ '' ppg''),
                           JStr (pts @ '' pts''), JStr (gp @ '' gp'')])
              \<and> team_row P (JObj kvs) i =
                Inr (JArr [JNum (num_of_nat P (i + 1)), own_prop kvs ''team'',
                           JStr (num_to_fixed P 1 x @ '' ppg''),
                           JStr (pts_for @ '' pts''), JStr (gp @ '' gp'')]))
         \<and> ((\<forall>x. own_prop kvs ''ppg'' \<noteq> JNum x) \<longrightarrow>
              ppg_row P (JObj kvs) i = Inl TypeError \<and> team_row P (JObj kvs) i = Inl TypeError)
         \<and> (\<forall>k. map_of kvs k = None \<longrightarrow>
              own_prop kvs k = JUndefined
              \<and> (\<exists>td. body_cell P (own_prop kvs k) = Inr td \<and> textContent td = []))"
proof -
  from flat_record_text [OF flat, of P "''pts''"] obtain pts where
    pts: "to_string P (own_prop kvs ''pts'') = Inr pts"
    and pts_u: "map_of kvs ''pts'' = None \<longrightarrow> pts = ''undefined''"
    by (elim exE conjE)
  from flat_record_text [OF flat, of P "''gp''"] obtain gp where
    gp: "to_string P (own_prop kvs ''gp'') = Inr gp"
    and gp_u: "map_of kvs ''gp'' = None \<longrightarrow> gp = ''undefined''"
    by (elim exE conjE)
  from flat_record_text [OF flat, of P "''pts_for''"] obtain pts_for where
    pts_for: "to_string P (own_prop kvs ''pts_for'') = Inr pts_for"
    and pts_for_u: "map_of kvs ''pts_for'' = None \<longrightarrow> pts_for = ''undefined''"
    by (elim exE conjE)
  have a: "map_of kvs ''pts'' = None \<longrightarrow> pts @ '' pts'' = ''undefined pts''"
    using pts_u by simp
  have b: "map_of kvs ''gp'' = None \<longrightarrow> gp @ '' gp'' = ''undefined gp''"
    using gp_u by simp
  have c: "map_of kvs ''pts_for'' = None \<longrightarrow> pts_for @ '' pts'' = ''undefined pts''"
    using pts_for_u by simp
  have d: "pts_row P (JObj kvs) i =
             Inr (JArr [JNum (num_of_nat P (i + 1)), own_prop kvs ''player'', own_prop kvs ''team'',
                        JStr (pts @ '' pts''), JStr (gp @ '' gp'')])"
    by (simp add: pts_row_def pts gp)
  have e: "threes_row P (JObj kvs) i =
             Inr (JArr [JNum (num_of_nat P (i + 1)), own_prop kvs ''player'', own_prop kvs ''team'',
                        own_prop kvs ''threes'', JStr (gp @ '' gp'')])"
    by (simp add: threes_row_def gp)
  have f: "\<forall>x. own_prop kvs ''ppg'' = JNum x \<longrightarrow>
              ppg_row P (JObj kvs) i =
                Inr (JArr [JNum (num_of_nat P (i + 1)), own_prop kvs ''player'', own_prop kvs ''team'',
                           JStr (num_to_fixed P 1 x @ '' ppg''),
                           JStr (pts @ '' pts''), JStr (gp @ '' gp'')])
              \<and> team_row P (JObj kvs) i =
                Inr (JArr [JNum (num_of_nat P (i + 1)), own_prop kvs ''team'',
                           JStr (num_to_fixed P 1 x @ '' ppg''),
                           JStr (pts_for @ '' pts''), JStr (gp @ '' gp'')])"
    by (simp add: ppg_row_def team_row_def pts gp pts_for)
  have g: "(\<forall>x. own_prop kvs ''ppg'' \<noteq> JNum x) \<longrightarrow>
              ppg_row P (JObj kvs) i = Inl TypeError \<and> team_row P (JObj kvs) i = Inl TypeError"
  proof
    assume "\<forall>x. own_prop kvs ''ppg'' \<noteq> JNum x"
    then have "to_fixed P 1 (own_prop kvs ''ppg'') = Inl TypeError"
      by (cases "own_prop kvs ''ppg''") simp_all
    then show "ppg_row P (JObj kvs) i = Inl TypeError \<and> team_row P (JObj kvs) i = Inl TypeError"
      by (simp add: ppg_row_def team_row_def)
  qed
  have h: "\<forall>k. map_of kvs k = None \<longrightarrow>
              own_prop kvs k = JUndefined
              \<and> (\<exists>td. body_cell P (own_prop kvs k) = Inr td \<and> textContent td = [])"
    by (simp add: own_prop_def undefined_cell cell_texts)
  show ?thesis
    by (intro exI [of _ pts] exI [of _ gp] exI [of _ pts_for] conjI)
       (rule pts gp pts_for a b c d e f g h)+
qed

theorem rows_of_incomplete_records_witness:
  "flat_record [(''player'', JStr ''B. Example''), (''team'', JStr ''XYZ''),
                (''pts'', JNum (640 :: nat)), (''gp'', JNum 32)]
   \<and> flat_record [(''player'', JStr ''C. Example''), (''ppg'', JNum (20 :: nat))]
   \<and> pts_row nat_platform record_without_ppg 1 =
     Inr (JArr [JNum 2, JStr ''B. Example'', JStr ''XYZ'', JStr ''640 pts'', JStr ''32 gp''])
   \<and> threes_row nat_platform record_without_ppg 1 =
     Inr (JArr [JNum 2, JStr ''B. Example'', JStr ''XYZ'', JUndefined, JStr ''32 gp''])
   \<and> ppg_row nat_platform record_without_ppg 1 = Inl TypeError
   \<and> ppg_row nat_platform (JObj [(''player'', JStr ''C. Example''), (''ppg'', JNum 20)]) 0 =
     Inr (JArr [JNum 1, JStr ''C. Example'', JUndefined, JStr ''20.0 ppg'',
                JStr ''undefined pts'', JStr ''undefined gp''])
   \<and> (\<exists>td. body_cell nat_platform (JUndefined :: nat jsval) = Inr td \<and> textContent td = [])"
proof -
  let ?kvs = "[(''player'', JStr ''B. Example''), (''team'', JStr ''XYZ''),
               (''pts'', JNum (640 :: nat)), (''gp'', JNum 32)]"
  let ?kvs' = "[(''player'', JStr ''C. Example''), (''ppg'', JNum (20 :: nat))]"
  have flat: "flat_record ?kvs" and flat': "flat_record ?kvs'"
    by (simp_all add: flat_record_def)
  have no_ppg: "\<forall>x. own_prop ?kvs ''ppg'' \<noteq> JNum x"
    by (simp add: own_prop_def)
  have ppg: "own_prop ?kvs' ''ppg'' = JNum 20"
    by (simp add: own_prop_def)
  have missing: "map_of ?kvs' ''team'' = None"
    by simp
  from rows_of_incomplete_records [OF flat, of nat_platform 1] obtain pts gp where
    "to_string nat_platform (own_prop ?kvs ''pts'') = Inr pts"
    "to_string nat_platform (own_prop ?kvs ''gp'') = Inr gp"
    and rows: "pts_row nat_platform (JObj ?kvs) 1 =
             Inr (JArr [JNum (num_of_nat nat_platform (1 + 1)), own_prop ?kvs ''player'', own_prop ?kvs ''team'',
                        JStr (pts @ '' pts''), JStr (gp @ '' gp'')])"
     "threes_row nat_platform (JObj ?kvs) 1 =
             Inr (JArr [JNum (num_of_nat nat_platform (1 + 1)), own_prop ?kvs ''player'', own_prop ?kvs ''team'',
                        own_prop ?kvs ''threes'', JStr (gp @ '' gp'')])"
    and raise: "(\<forall>x. own_prop ?kvs ''ppg'' \<noteq> JNum x) \<longrightarrow>
              ppg_row nat_platform (JObj ?kvs) 1 = Inl TypeError \<and> team_row nat_platform (JObj ?kvs) 1 = Inl TypeError"
    by (elim exE conjE)
  then have texts: "pts = ''640''" "gp = ''32''"
    by (simp_all add: own_prop_def nat_platform_def decimal.simps)
  from rows texts have r1: "pts_row nat_platform record_without_ppg 1 =
     Inr (JArr [JNum 2, JStr ''B. Example'', JStr ''XYZ'', JStr ''640 pts'', JStr ''32 gp''])"
    and r2: "threes_row nat_platform record_without_ppg 1 =
     Inr (JArr [JNum 2, JStr ''B. Example'', JStr ''XYZ'', JUndefined, JStr ''32 gp''])"
    by (simp_all add: record_without_ppg_def own_prop_def nat_platform_def)
  from raise no_ppg have r3: "ppg_row nat_platform record_without_ppg 1 = Inl TypeError"
    unfolding record_without_ppg_def by (rule mp [THEN conjunct1])
  from rows_of_incomplete_records [OF flat', of nat_platform 0] obtain pts' gp' pts_for' where
    "to_string nat_platform (own_prop ?kvs' ''pts'') = Inr pts'"
    "to_string nat_platform (own_prop ?kvs' ''gp'') = Inr gp'"
    and built: "\<forall>x. own_prop ?kvs' ''ppg'' = JNum x \<longrightarrow>
              ppg_row nat_platform (JObj ?kvs') 0 =
                Inr (JArr [JNum (num_of_nat nat_platform (0 + 1)), own_prop ?kvs' ''player'', own_prop ?kvs' ''team'',
                           JStr (num_to_fixed nat_platform 1 x @ '' ppg''),
                           JStr (pts' @ '' pts''), JStr (gp' @ '' gp'')])
              \<and> team_row nat_platform (JObj ?kvs') 0 =
                Inr (JArr [JNum (num_of_nat nat_platform (0 + 1)), own_prop ?kvs' ''team'',
                           JStr (num_to_fixed nat_platform 1 x @ '' ppg''),
                           JStr (pts_for' @ '' pts''), JStr (gp' @ '' gp'')])"
    and cells: "\<forall>k. map_of ?kvs' k = None \<longrightarrow>
              own_prop ?kvs' k = JUndefined
              \<and> (\<exists>td. body_cell nat_platform (own_prop ?kvs' k) = Inr td \<and> textContent td = [])"
    by (elim exE conjE)
  then have texts': "pts' = ''undefined''" "gp' = ''undefined''"
    by (simp_all add: own_prop_def)
  from built [rule_format, OF ppg, THEN conjunct1] texts'
  have r4: "ppg_row nat_platform (JObj ?kvs') 0 =
     Inr (JArr [JNum 1, JStr ''C. Example'', JUndefined, JStr ''20.0 ppg'',
                JStr ''undefined pts'', JStr ''undefined gp''])"
    by (simp add: own_prop_def nat_platform_def decimal.simps)
  from cells [rule_format, OF missing, THEN conjunct2]
  have r5: "\<exists>td. body_cell nat_platform (JUndefined :: nat jsval) = Inr td \<and> textContent td = []"
    by (simp add: own_prop_def)
  show ?thesis
    by (intro conjI) (rule flat flat' r1 r2 r3 r4 r5)+
qed

text \<open>
  The claim as stated fails: a record without \<^verbatim>\<open>ppg\<close> raises a TypeError in the row
  callbacks of points per game and of team offense, and on the example page the run
  ends with the error message in place of the four regions.
\<close>

theorem missing_ppg_raises_counterexample:
  "ppg_row nat_platform record_without_ppg 0 = Inl TypeError
   \<and> team_row nat_platform record_without_ppg 0 = Inl TypeError
   \<and> load_leaders nat_platform (Parsed bad_feed) example_page =
       Element ''div'' (Some ''leaders-container'') [] [Text ''Error loading leaders data.'']"
proof -
  have "getElementById ''leaders-ppg'' example_page =
          Some (Element ''div'' (Some ''leaders-ppg'') [] [Text ''Loading''])"
    by (simp add: example_page_def)
  from bad_feed_throws [OF this]
  have "load_leaders nat_platform (Parsed bad_feed) example_page =
          on_error (update_element ''leaders-ppg'' clear_innerHTML example_page)"
    by (simp add: load_leaders_def)
  also have "\<dots> = Element ''div'' (Some ''leaders-container'') [] [Text ''Error loading leaders data.'']"
    by (simp add: on_error_def example_page_def)
  finally show ?thesis
    by (simp add: record_without_ppg_rows)
qed



section \<open>What the callback leaves in the regions\<close>

lemma on_data_regions:
  assumes sep: "separate doc" and run: "on_data P data doc = Inr doc'"
  shows "(\<forall>t a s c. getElementById ''leaders-ppg'' doc = Some (Element t a s c) \<longrightarrow>
            (\<exists>leaders rows table.
               leaders_of P data ''player_leaders'' ''points_per_game'' = Inr leaders
             \<and> array_map (ppg_row P) leaders = Inr rows
             \<and> makeTable P (JArr (map JStr ppg_headers)) rows = Inr table
             \<and> getElementById ''leaders-ppg'' doc' = Some (Element t a s [table])))
       \<and> (\<forall>t a s c. getElementById ''leaders-pts'' doc = Some (Element t a s c) \<longrightarrow>
            (\<exists>leaders rows table.
               leaders_of P data ''player_leaders'' ''points_total'' = Inr leaders
             \<and> array_map (pts_row P) leaders = Inr rows
             \<and> makeTable P (JArr (map JStr pts_headers)) rows = Inr table
             \<and> getElementById ''leaders-pts'' doc' = Some (Element t a s [table])))
       \<and> (\<forall>t a s c. getElementById ''leaders-threes'' doc = Some (Element t a s c) \<longrightarrow>
            (\<exists>leaders rows table.
               leaders_of P data ''player_leaders'' ''three_pointers_made'' = Inr leaders
             \<and> array_map (threes_row P) leaders = Inr rows
             \<and> makeTable P (JArr (map JStr threes_headers)) rows = Inr table
             \<and> getElementById ''leaders-threes'' doc' = Some (Element t a s [table])))
       \<and> (\<forall>t a s c. getElementById ''leaders-teams'' doc = Some (Element t a s c) \<longrightarrow>
            (\<exists>leaders rows table.
               leaders_of P data ''team_leaders'' ''offense_points_per_game'' = Inr leaders
             \<and> array_map (team_row P) leaders = Inr rows
             \<and> makeTable P (JArr (map JStr teams_headers)) rows = Inr table
             \<and> getElementById ''leaders-teams'' doc' = Some (Element t a s [table])))"
proof -
  from on_data_Inr [OF run] obtain doc1 ppg pts threes teamOff d2 d3 d4 where
    ts: "update_timestamp P data doc = Inr doc1"
    and l1: "leaders_of P data ''player_leaders'' ''points_per_game'' = Inr ppg"
    and l2: "leaders_of P data ''player_leaders'' ''points_total'' = Inr pts"
    and l3: "leaders_of P data ''player_leaders'' ''three_pointers_made'' = Inr threes"
    and l4: "leaders_of P data ''team_leaders'' ''offense_points_per_game'' = Inr teamOff"
    and r1: "render_section P ''leaders-ppg'' (getElementById ''leaders-ppg'' doc1 \<noteq> None)
       ppg_headers (ppg_row P) ppg doc1 = Inr d2"
    and r2: "render_section P ''leaders-pts'' (getElementById ''leaders-pts'' doc1 \<noteq> None)
       pts_headers (pts_row P) pts d2 = Inr d3"
    and r3: "render_section P ''leaders-threes'' (getElementById ''leaders-threes'' doc1 \<noteq> None)
       threes_headers (threes_row P) threes d3 = Inr d4"
    and r4: "render_section P ''leaders-teams'' (getElementById ''leaders-teams'' doc1 \<noteq> None)
       teams_headers (team_row P) teamOff d4 = Inr doc'"
    by blast
  note m = looked_up_mem
  note s1 = update_timestamp_separate(1) [OF sep ts]
  note k1 = update_timestamp_separate(2) [OF sep ts]
  have a1: "getElementById ''leaders-ppg'' doc1 = getElementById ''leaders-ppg'' doc"
    by (rule k1 [OF m(2)]) simp
  have a2: "getElementById ''leaders-pts'' doc1 = getElementById ''leaders-pts'' doc"
    by (rule k1 [OF m(3)]) simp
  have a3: "getElementById ''leaders-threes'' doc1 = getElementById ''leaders-threes'' doc"
    by (rule k1 [OF m(4)]) simp
  have a4: "getElementById ''leaders-teams'' doc1 = getElementById ''leaders-teams'' doc"
    by (rule k1 [OF m(5)]) simp
  note s2 = section_step(1) [OF s1 m(2) r1]
  note k2 = section_step(2) [OF s1 m(2) r1]
  have b2: "getElementById ''leaders-pts'' d2 = getElementById ''leaders-pts'' doc1"
    by (rule k2 [OF m(3)]) simp
  have b3: "getElementById ''leaders-threes'' d2 = getElementById ''leaders-threes'' doc1"
    by (rule k2 [OF m(4)]) simp
  have b4: "getElementById ''leaders-teams'' d2 = getElementById ''leaders-teams'' doc1"
    by (rule k2 [OF m(5)]) simp
  from r2 b2 have r2': "render_section P ''leaders-pts'' (getElementById ''leaders-pts'' d2 \<noteq> None)
       pts_headers (pts_row P) pts d2 = Inr d3" by simp
  note s3 = section_step(1) [OF s2 m(3) r2']
  note k3 = section_step(2) [OF s2 m(3) r2']
  have c1: "getElementById ''leaders-ppg'' d3 = getElementById ''leaders-ppg'' d2"
    by (rule k3 [OF m(2)]) simp
  have c3: "getElementById ''leaders-threes'' d3 = getElementById ''leaders-threes'' d2"
    by (rule k3 [OF m(4)]) simp
  have c4: "getElementById ''leaders-teams'' d3 = getElementById ''leaders-teams'' d2"
    by (rule k3 [OF m(5)]) simp
  from r3 b3 c3 have r3': "render_section P ''leaders-threes'' (getElementById ''leaders-threes'' d3 \<noteq> None)
       threes_headers (threes_row P) threes d3 = Inr d4" by simp
  note s4 = section_step(1) [OF s3 m(4) r3']
  note k4 = section_step(2) [OF s3 m(4) r3']
  have e1: "getElementById ''leaders-ppg'' d4 = getElementById ''leaders-ppg'' d3"
    by (rule k4 [OF m(2)]) simp
  have e2: "getElementById ''leaders-pts'' d4 = getElementById ''leaders-pts'' d3"
    by (rule k4 [OF m(3)]) simp
  have e4: "getElementById ''leaders-teams'' d4 = getElementById ''leaders-teams'' d3"
    by (rule k4 [OF m(5)]) simp
  from r4 b4 c4 e4 have r4': "render_section P ''leaders-teams'' (getElementById ''leaders-teams'' d4 \<noteq> None)
       teams_headers (team_row P) teamOff d4 = Inr doc'" by simp
  note k5 = section_step(2) [OF s4 m(5) r4']
  have f1: "getElementById ''leaders-ppg'' doc' = getElementById ''leaders-ppg'' d4"
    by (rule k5 [OF m(2)]) simp
  have f2: "getElementById ''leaders-pts'' doc' = getElementById ''leaders-pts'' d4"
    by (rule k5 [OF m(3)]) simp
  have f3: "getElementById ''leaders-threes'' doc' = getElementById ''leaders-threes'' d4"
    by (rule k5 [OF m(4)]) simp
  show ?thesis
  proof (intro conjI allI impI)
    fix t a s c assume "getElementById ''leaders-ppg'' doc = Some (Element t a s c)"
    with a1 have "getElementById ''leaders-ppg'' doc1 = Some (Element t a s c)" by simp
    from section_step(3) [OF s1 m(2) r1 this] obtain rows table where
      "array_map (ppg_row P) ppg = Inr rows" "makeTable P (JArr (map JStr ppg_headers)) rows = Inr table"
      "getElementById ''leaders-ppg'' d2 = Some (Element t a s [table])" by blast
    with l1 c1 e1 f1 show "\<exists>leaders rows table.
               leaders_of P data ''player_leaders'' ''points_per_game'' = Inr leaders
             \<and> array_map (ppg_row P) leaders = Inr rows
             \<and> makeTable P (JArr (map JStr ppg_headers)) rows = Inr table
             \<and> getElementById ''leaders-ppg'' doc' = Some (Element t a s [table])"
      by simp
  next
    fix t a s c assume "getElementById ''leaders-pts'' doc = Some (Element t a s c)"
    with a2 b2 have "getElementById ''leaders-pts'' d2 = Some (Element t a s c)" by simp
    from section_step(3) [OF s2 m(3) r2' this] obtain rows table where
      "array_map (pts_row P) pts = Inr rows" "makeTable P (JArr (map JStr pts_headers)) rows = Inr table"
      "getElementById ''leaders-pts'' d3 = Some (Element t a s [table])" by blast
    with l2 e2 f2 show "\<exists>leaders rows table.
               leaders_of P data ''player_leaders'' ''points_total'' = Inr leaders
             \<and> array_map (pts_row P) leaders = Inr rows
             \<and> makeTable P (JArr (map JStr pts_headers)) rows = Inr table
             \<and> getElementById ''leaders-pts'' doc' = Some (Element t a s [table])"
      by simp
  next
    fix t a s c assume "getElementById ''leaders-threes'' doc = Some (Element t a s c)"
    with a3 b3 c3 have "getElementById ''leaders-threes'' d3 = Some (Element t a s c)" by simp
    from section_step(3) [OF s3 m(4) r3' this] obtain rows table where
      "array_map (threes_row P) threes = Inr rows" "makeTable P (JArr (map JStr threes_headers)) rows = Inr table"
      "getElementById ''leaders-threes'' d4 = Some (Element t a s [table])" by blast
    with l3 f3 show "\<exists>leaders rows table.
               leaders_of P data ''player_leaders'' ''three_pointers_made'' = Inr leaders
             \<and> array_map (threes_row P) leaders = Inr rows
             \<and> makeTable P (JArr (map JStr threes_headers)) rows = Inr table
             \<and> getElementById ''leaders-threes'' doc' = Some (Element t a s [table])"
      by simp
  next
    fix t a s c assume "getElementById ''leaders-teams'' doc = Some (Element t a s c)"
    with a4 b4 c4 e4 have "getElementById ''leaders-teams'' d4 = Some (Element t a s c)" by simp
    from section_step(3) [OF s4 m(5) r4' this] obtain rows table where
      "array_map (team_row P) teamOff = Inr rows" "makeTable P (JArr (map JStr teams_headers)) rows = Inr table"
      "getElementById ''leaders-teams'' doc' = Some (Element t a s [table])" by blast
    with l4 show "\<exists>leaders rows table.
               leaders_of P data ''team_leaders'' ''offense_points_per_game'' = Inr leaders
             \<and> array_map (team_row P) leaders = Inr rows
             \<and> makeTable P (JArr (map JStr teams_headers)) rows = Inr table
             \<and> getElementById ''leaders-teams'' doc' = Some (Element t a s [table])"
      by simp
  qed
qed

text \<open>
  C8 (as amended). On a page whose looked-up elements are independent, when the
  callback runs to its end without an exception, every region that is present holds
  exactly one child afterwards, the table built from its leaderboard: what the region
  held before is gone and nothing else has been put into it.
\<close>

theorem regions_hold_one_table:
  assumes sep: "separate doc" and run: "on_data P data doc = Inr doc'"
  shows "(\<forall>t a s c. getElementById ''leaders-ppg'' doc = Some (Element t a s c) \<longrightarrow>
            (\<exists>leaders rows table.
               leaders_of P data ''player_leaders'' ''points_per_game'' = Inr leaders
             \<and> array_map (ppg_row P) leaders = Inr rows
             \<and> makeTable P (JArr (map JStr ppg_headers)) rows = Inr table
             \<and> getElementById ''leaders-ppg'' doc' = Some (Element t a s [table])))
       \<and> (\<forall>t a s c. getElementById ''leaders-pts'' doc = Some (Element t a s c) \<longrightarrow>
            (\<exists>leaders rows table.
               leaders_of P data ''player_leaders'' ''points_total'' = Inr leaders
             \<and> array_map (pts_row P) leaders = Inr rows
             \<and> makeTable P (JArr (map JStr pts_headers)) rows = Inr table
             \<and> getElementById ''leaders-pts'' doc' = Some (Element t a s [table])))
       \<and> (\<forall>t a s c. getElementById ''leaders-threes'' doc = Some (Element t a s c) \<longrightarrow>
            (\<exists>leaders rows table.
               leaders_of P data ''player_leaders'' ''three_pointers_made'' = Inr leaders
             \<and> array_map (threes_row P) leaders = Inr rows
             \<and> makeTable P (JArr (map JStr threes_headers)) rows = Inr table
             \<and> getElementById ''leaders-threes'' doc' = Some (Element t a s [table])))
       \<and> (\<forall>t a s c. getElementById ''leaders-teams'' doc = Some (Element t a s c) \<longrightarrow>
            (\<exists>leaders rows table.
               leaders_of P data ''team_leaders'' ''offense_points_per_game'' = Inr leaders
             \<and> array_map (team_row P) leaders = Inr rows
             \<and> makeTable P (JArr (map JStr teams_headers)) rows = Inr table
             \<and> getElementById ''leaders-teams'' doc' = Some (Element t a s [table])))"
  using sep run by (rule on_data_regions)

theorem regions_hold_one_table_witness:
  "separate example_page
   \<and> (\<exists>doc' table. on_data nat_platform example_feed example_page = Inr doc'
        \<and> getElementById ''leaders-ppg'' doc' = Some (Element ''div'' (Some ''leaders-ppg'') [] [table])
        \<and> row_texts table = [[''1'', ''A. Example'', ''XYZ'', ''23.0 ppg'', ''812 pts'', ''35 gp'']])"
proof -
  from example_run obtain doc' where run: "on_data nat_platform example_feed example_page = Inr doc'"
    by blast
  have el: "getElementById ''leaders-ppg'' example_page =
          Some (Element ''div'' (Some ''leaders-ppg'') [] [Text ''Loading''])"
    by (simp add: example_page_def)
  from regions_hold_one_table [OF separate_example_page run, THEN conjunct1, rule_format, OF el]
  obtain leaders rows table where
    l: "leaders_of nat_platform example_feed ''player_leaders'' ''points_per_game'' = Inr leaders"
    and rw: "array_map (ppg_row nat_platform) leaders = Inr rows"
    and t: "makeTable nat_platform (JArr (map JStr ppg_headers)) rows = Inr table"
    and r: "getElementById ''leaders-ppg'' doc' = Some (Element ''div'' (Some ''leaders-ppg'') [] [table])"
    by blast
  from l have "leaders = JArr [example_record]"
    by (simp add: example_feed_leaders(1))
  with rw have "rows = JArr (map JArr [[JNum 1, JStr ''A. Example'', JStr ''XYZ'', JStr ''23.0 ppg'', JStr ''812 pts'', JStr ''35 gp'']])"
    by (simp add: example_ppg_rows del: array_map.simps)
  with t have "makeTable nat_platform (JArr (map JStr ppg_headers))
      (JArr (map JArr [[JNum 1, JStr ''A. Example'', JStr ''XYZ'', JStr ''23.0 ppg'', JStr ''812 pts'', JStr ''35 gp'']])) =
      Inr table"
    by simp
  from makeTable_arrays_Inr [OF this] obtain hs ts where
    ts: "rows_texts_of nat_platform
       [[JNum 1, JStr ''A. Example'', JStr ''XYZ'', JStr ''23.0 ppg'', JStr ''812 pts'', JStr ''35 gp'']] = Inr ts"
    and tab: "table = table_of hs ts"
    by blast
  from ts have "ts = [[''1'', ''A. Example'', ''XYZ'', ''23.0 ppg'', ''812 pts'', ''35 gp'']]"
    unfolding example_ppg_texts by simp
  with tab have texts: "row_texts table = [[''1'', ''A. Example'', ''XYZ'', ''23.0 ppg'', ''812 pts'', ''35 gp'']]"
    by (simp add: table_of_texts)
  show ?thesis
    by (intro conjI exI [of _ doc'] exI [of _ table]) (rule separate_example_page run r texts)+
qed

text \<open>
  The claim as stated fails when a row callback raises: the fetch and the parse have
  succeeded and the regions are present, but the first region is left empty and the
  others keep what they held.
\<close>

theorem region_left_empty_counterexample:
  "getElementById ''leaders-ppg'' bare_page = Some (Element ''div'' (Some ''leaders-ppg'') [] [Text ''Loading''])
   \<and> getElementById ''leaders-pts'' bare_page = Some (Element ''div'' (Some ''leaders-pts'') [] [Text ''Loading''])
   \<and> load_leaders nat_platform (Parsed bad_feed) bare_page =
       Element ''body'' None []
         [Element ''span'' (Some ''leaders-updated'') [] [],
          Element ''div'' (Some ''leaders-ppg'') [] [],
          Element ''div'' (Some ''leaders-pts'') [] [Text ''Loading''],
          Element ''div'' (Some ''leaders-threes'') [] [Text ''Loading''],
          Element ''div'' (Some ''leaders-teams'') [] [Text ''Loading'']]"
proof -
  have el: "getElementById ''leaders-ppg'' bare_page =
          Some (Element ''div'' (Some ''leaders-ppg'') [] [Text ''Loading''])"
    by (simp add: bare_page_def)
  from bad_feed_throws [OF this]
  have "load_leaders nat_platform (Parsed bad_feed) bare_page =
          on_error (update_element ''leaders-ppg'' clear_innerHTML bare_page)"
    by (simp add: load_leaders_def)
  also have "\<dots> = Element ''body'' None []
         [Element ''span'' (Some ''leaders-updated'') [] [],
          Element ''div'' (Some ''leaders-ppg'') [] [],
          Element ''div'' (Some ''leaders-pts'') [] [Text ''Loading''],
          Element ''div'' (Some ''leaders-threes'') [] [Text ''Loading''],
          Element ''div'' (Some ''leaders-teams'') [] [Text ''Loading'']]"
    by (simp add: on_error_def bare_page_def)
  finally show ?thesis
    using el by (simp add: bare_page_def)
qed

section \<open>A document without a leaderboard\<close>






section \<open>A region that is not in the page\<close>






section \<open>A failed fetch\<close>

lemma lookup_after_replace:
  "i \<noteq> j \<Longrightarrow> \<forall>t a s c. g (Element t a s c) = Element t a s (h c)
     \<Longrightarrow> \<forall>t a s c. g' (Element t a s c) = Element t a s (h' c)
     \<Longrightarrow> \<forall>c. find_in j (h c) = None \<and> find_in j (h' c) = None
     \<Longrightarrow> (getElementById j (update_element i g d) = None) = (getElementById j (update_element i g' d) = None)"
  "i \<noteq> j \<Longrightarrow> \<forall>t a s c. g (Element t a s c) = Element t a s (h c)
     \<Longrightarrow> \<forall>t a s c. g' (Element t a s c) = Element t a s (h' c)
     \<Longrightarrow> \<forall>c. find_in j (h c) = None \<and> find_in j (h' c) = None
     \<Longrightarrow> (find_in j (update_in i g ds) = None) = (find_in j (update_in i g' ds) = None)"
  by (induction i d and i ds rule: getElementById_find_in.induct)
     (auto split: option.splits if_splits)

lemma replace_text_children:
  "\<forall>t a s c. replace_text ''Error loading leaders data.'' (Element t a s c) =
     Element t a s ((\<lambda>c. [Text ''Error loading leaders data.'']) c)"
  by simp

lemma load_leaders_rejected:
  "load_leaders P FetchRejected doc = on_error doc" "load_leaders P JsonRejected doc = on_error doc"
  by (simp_all add: load_leaders_def)

text \<open>
  C6. When the fetch is rejected or its body is not JSON, the data callback does not
  run and the only step taken is the error callback: no table is built. On a page
  whose error region holds the four display regions, that region then holds the one
  text \<^verbatim>\<open>Error loading leaders data.\<close> and nothing else, and none of the four regions
  is in the page any more.
\<close>

theorem failed_fetch_shows_message:
  assumes rej: "r = FetchRejected \<or> r = JsonRejected" and layout: "regions_in_container doc"
  shows "load_leaders P r doc = on_error doc
       \<and> (\<exists>t a s c. getElementById ''leaders-container'' doc = Some (Element t a s c)
            \<and> list_all (\<lambda>i. find_in i c \<noteq> None) region_ids
            \<and> getElementById ''leaders-container'' (load_leaders P r doc) =
                Some (Element t a s [Text ''Error loading leaders data.'']))
       \<and> list_all (\<lambda>i. getElementById i (load_leaders P r doc) = None) region_ids"
proof -
  have load: "load_leaders P r doc = on_error doc"
    using rej load_leaders_rejected by blast
  from layout obtain container where c: "getElementById ''leaders-container'' doc = Some container"
    and la: "list_all (\<lambda>i. find_in i (childNodes container) \<noteq> None
                       \<and> getElementById i (update_element ''leaders-container'' clear_innerHTML doc) = None)
            region_ids"
    by (cases "getElementById ''leaders-container'' doc") (simp_all add: regions_in_container_def)
  from find_is_element(1) [OF c] obtain t s k where el: "container = Element t (Some ''leaders-container'') s k"
    by blast
  have err: "on_error doc =
      update_element ''leaders-container'' (replace_text ''Error loading leaders data.'') doc"
    by (simp add: on_error_def c)
  have c': "getElementById ''leaders-container'' doc = Some (Element t (Some ''leaders-container'') s k)"
    using c el by simp
  have shown: "getElementById ''leaders-container'' (load_leaders P r doc) =
      Some (Element t (Some ''leaders-container'') s [Text ''Error loading leaders data.''])"
    unfolding load err by (rule find_same(1) [OF c' replace_text_children])
  have inside: "list_all (\<lambda>i. find_in i k \<noteq> None) region_ids"
    using la el by (simp add: list_all_iff)
  have gone: "getElementById i (load_leaders P r doc) = None" if i: "i \<in> set region_ids" for i
  proof -
    from i have ne: "''leaders-container'' \<noteq> i"
      by (auto simp add: region_ids_def)
    from la i have "getElementById i (update_element ''leaders-container'' clear_innerHTML doc) = None"
      by (simp add: list_all_iff)
    moreover have "\<forall>c. find_in i ((\<lambda>c. []) c) = None \<and> find_in i ((\<lambda>c. [Text ''Error loading leaders data.'']) c) = None"
      by simp
    note lookup_after_replace(1) [OF ne clear_innerHTML_children replace_text_children this, of doc]
    ultimately show ?thesis
      unfolding load err by simp
  qed
  then have "list_all (\<lambda>i. getElementById i (load_leaders P r doc) = None) region_ids"
    by (simp add: list_all_iff)
  with load c' inside shown show ?thesis by blast
qed

theorem failed_fetch_shows_message_witness:
  "regions_in_container example_page
   \<and> load_leaders nat_platform FetchRejected example_page =
       Element ''div'' (Some ''leaders-container'') [] [Text ''Error loading leaders data.'']
   \<and> load_leaders nat_platform JsonRejected example_page =
       Element ''div'' (Some ''leaders-container'') [] [Text ''Error loading leaders data.'']
   \<and> getElementById ''leaders-teams'' (load_leaders nat_platform JsonRejected example_page) = None"
proof -
  have layout: "regions_in_container example_page"
    by (simp add: regions_in_container_def region_ids_def example_page_def)
  have e: "on_error example_page =
       Element ''div'' (Some ''leaders-container'') [] [Text ''Error loading leaders data.'']"
    by (simp add: on_error_def example_page_def)
  have "load_leaders nat_platform FetchRejected example_page = on_error example_page"
    using failed_fetch_shows_message [OF _ layout, of FetchRejected nat_platform] by simp
  moreover have "load_leaders nat_platform JsonRejected example_page = on_error example_page"
    using failed_fetch_shows_message [OF _ layout, of JsonRejected nat_platform] by simp
  ultimately show ?thesis
    using layout by (simp add: e)
qed

end
